theory Spec2Isabelle
  imports Main "HOL-Library.Word" "HOL-Library.Sublist"
begin

unbundle bit_operations_syntax

section \<open>Go strings, formatting and run-time panics\<close>

text \<open>
  A Go \<open>string\<close> is a sequence of bytes and \<open>len\<close> counts bytes, which is what a HOL
  \<open>string\<close> (a list of 8-bit characters) is. Go's \<open>int\<close> is 64 bits wide; the integers
  of \<open>truncateSQL\<close> are byte counts of strings held in memory, which stay far below
  \<open>2 ^ 63\<close>, so they are modelled by \<open>int\<close> without wrap-around.
\<close>

datatype panic = IndexOutOfRange | SliceOutOfRange | NilPointer

text \<open>\<open>%d\<close> of \<open>fmt.Sprintf\<close>: the decimal form of an integer.\<close>

definition digit :: "nat \<Rightarrow> char" where
  "digit n = char_of (48 + n)"

fun decimal :: "nat \<Rightarrow> string" where
  "decimal n = (if n < 10 then [digit n] else decimal (n div 10) @ [digit (n mod 10)])"

declare decimal.simps [simp del]

definition Itoa :: "int \<Rightarrow> string" where
  "Itoa i = (if i < 0 then CHR ''-'' # decimal (nat (- i)) else decimal (nat i))"

text \<open>
  \<open>strings.IndexRune(s, '\n')\<close>: the byte index of the first line feed, or \<open>-1\<close>. The
  line feed is below \<open>utf8.RuneSelf\<close>, so the library searches for the single byte.
\<close>

definition newline :: char where
  "newline = CHR 0x0A"

fun IndexRune :: "string \<Rightarrow> char \<Rightarrow> int" where
  "IndexRune [] c = - 1"
| "IndexRune (x # xs) c =
     (if x = c then 0
      else (let i = IndexRune xs c in if i = - 1 then - 1 else i + 1))"

text \<open>The slice expression \<open>s[:idx]\<close>, which panics outside \<open>0 \<le> idx \<le> len(s)\<close>.\<close>

definition slice_to :: "string \<Rightarrow> int \<Rightarrow> panic + string" where
  "slice_to s idx =
     (if 0 \<le> idx \<and> idx \<le> int (length s) then Inr (take (nat idx) s)
      else Inl SliceOutOfRange)"

section \<open>truncateSQL\<close>

text \<open>The loop \<open>for _, v := range s { total += len(v) }\<close>, started at \<open>tot\<close>.\<close>

fun sum_len :: "string list \<Rightarrow> int \<Rightarrow> int" where
  "sum_len [] tot = tot"
| "sum_len (v # s) tot = sum_len s (tot + int (length v))"

text \<open>\<open>fmt.Sprintf("-- truncated %d bytes...", total)\<close>.\<close>

definition truncated_msg :: "int \<Rightarrow> string" where
  "truncated_msg tot = ''-- truncated '' @ Itoa tot @ '' bytes...''"

definition sqlLimitSize :: int where
  "sqlLimitSize = 1024"

text \<open>
  \<open>truncateSQL(s, size)\<close>, with \<open>sz\<close> for \<open>size\<close> and \<open>tot\<close> for \<open>total\<close>. The expression
  \<open>s[0]\<close> in the header of the \<open>switch\<close> panics on an empty slice; the panic is a result
  of the model.
\<close>

definition truncateSQL :: "string list \<Rightarrow> int \<Rightarrow> panic + string list" where
  "truncateSQL s sz =
     (let tot = sum_len s 0 in
      if tot > sz then
        (case s of
           [] \<Rightarrow> Inl IndexOutOfRange
         | s0 # _ \<Rightarrow>
             (let idx = IndexRune s0 newline; len = int (length s0) in
              if len \<le> sz then
                Inr [s0, truncated_msg (tot - len)]
              else if idx \<noteq> - 1 \<and> idx \<le> sz then
                (case slice_to s0 idx of
                   Inl p \<Rightarrow> Inl p
                 | Inr pre \<Rightarrow> Inr [pre @ [newline] @ truncated_msg (tot - (idx + 1))])
              else Inr [truncated_msg tot]))
      else Inr s)"

text \<open>
  The part of a string before its first line feed (the whole string when it has none).
\<close>

definition first_line :: "string \<Rightarrow> string" where
  "first_line v = takeWhile (\<lambda>x. x \<noteq> newline) v"

text \<open>
  The truncation policy as the specification words it, for comparison with \<open>truncateSQL\<close>:
  unchanged when the total fits; a single summary line when the first line alone exceeds
  the limit; otherwise the first line, or its part before the first line feed, whichever
  is smaller, followed by a summary of the bytes elided.
\<close>

definition truncate_spec :: "string list \<Rightarrow> int \<Rightarrow> string list" where
  "truncate_spec lines limit =
     (let tot = (\<Sum>v\<leftarrow>lines. int (length v)) in
      if tot \<le> limit then lines
      else (case lines of
              [] \<Rightarrow> []
            | l # _ \<Rightarrow>
                if limit < int (length l) then [truncated_msg tot]
                else [first_line l, truncated_msg (tot - int (length (first_line l)))]))"


section \<open>Errors\<close>

text \<open>
  A Go \<open>error\<close> is a value with a message (\<open>err.Error()\<close>, here \<open>err_Error\<close>) and an identity that
  \<open>errors.Is\<close> and \<open>errors.As\<close> test: a plain error (\<open>errors.New\<close>, \<open>fmt.Errorf\<close>, or
  whatever a collaborator returns), the API server's not-found error, the sentinel
  \<open>atlasexec.ErrRequireLogin\<close>, or a \<open>*destructiveErr\<close>. The type \<open>destructiveErr\<close> and
  its method \<open>FirstRun\<close> are not among the sources; the value carries the pair
  \<open>(reason, message)\<close> that \<open>FirstRun()\<close> returns.
\<close>

datatype errkind = Plain | NotFound | RequireLogin | DestructiveErr "string \<times> string"

text \<open>
  An error is one of these, or such an error wrapped as transient. The wrapper type is
  not among the sources either; what is known of it is what the specification says of
  the helper \<open>transient\<close>, below.
\<close>

datatype error = Err errkind string | TransientErr error

text \<open>
  Modelled from the spec: the helper \<open>transient\<close> is called by the controller and is not
  among the sources. The specification (Error Classifier) says that a transient failure
  is "wrapped so the caller's retry scheduler knows to requeue".
\<close>

definition transient :: "error \<Rightarrow> error" where
  "transient err = TransientErr err"

text \<open>
  Modelled from the spec: the helper \<open>isTransient\<close> is not among the sources. It
  recognises an error that \<open>transient\<close> wrapped.
\<close>

fun isTransient :: "error \<Rightarrow> bool" where
  "isTransient (TransientErr _) = True"
| "isTransient (Err _ _) = False"

text \<open>
  \<open>err.Error()\<close>, and the identity that \<open>errors.Is\<close> and \<open>errors.As\<close> find by unwrapping.
  Modelled from the spec: the methods \<open>Error\<close> and \<open>Unwrap\<close> of the transient wrapper are
  not among the sources; a wrapped error keeps the message and the identity of the error
  inside.
\<close>

fun err_Error :: "error \<Rightarrow> string" where
  "err_Error (Err _ m) = m"
| "err_Error (TransientErr e) = err_Error e"

fun kind_of :: "error \<Rightarrow> errkind" where
  "kind_of (Err k _) = k"
| "kind_of (TransientErr e) = kind_of e"

text \<open>\<open>errors.New(msg)\<close>; \<open>fmt.Errorf\<close> with the message already formatted.\<close>

definition errors_New :: "string \<Rightarrow> error" where
  "errors_New m = Err Plain m"

text \<open>\<open>client.IgnoreNotFound(err)\<close> of controller-runtime.\<close>

definition IgnoreNotFound :: "error \<Rightarrow> error option" where
  "IgnoreNotFound err = (if kind_of err = NotFound then None else Some err)"

text \<open>\<open>errors.Is(err, atlasexec.ErrRequireLogin)\<close>.\<close>

definition Is_ErrRequireLogin :: "error \<Rightarrow> bool" where
  "Is_ErrRequireLogin err = (kind_of err = RequireLogin)"

text \<open>\<open>errors.As(err, &d)\<close> for \<open>d\<close> a \<open>*destructiveErr\<close>: the result of \<open>d.FirstRun()\<close>.\<close>

definition As_destructiveErr :: "error \<Rightarrow> (string \<times> string) option" where
  "As_destructiveErr err = (case kind_of err of DestructiveErr fr \<Rightarrow> Some fr | _ \<Rightarrow> None)"

section \<open>Status conditions (k8s.io/apimachinery)\<close>

text \<open>
  \<open>metav1.Condition\<close>. \<open>ConditionStatus\<close> is a string type with the constants \<open>"True"\<close>,
  \<open>"False"\<close> and \<open>"Unknown"\<close>. A \<open>metav1.Time\<close> is an instant; the zero value of
  \<open>time.Time\<close>, which \<open>IsZero\<close> tests, is \<open>0\<close> here, and \<open>time.Now()\<close> is a parameter
  \<open>now\<close> of every operation that reads the clock.
\<close>

type_synonym Time = int

record Condition =
  Type :: string
  Status :: string
  ObservedGeneration :: int
  LastTransitionTime :: Time
  Reason :: string
  Message :: string

definition ConditionTrue :: string where
  "ConditionTrue = ''True''"

definition ConditionFalse :: string where
  "ConditionFalse = ''False''"

definition IsZero :: "Time \<Rightarrow> bool" where
  "IsZero t = (t = 0)"

text \<open>
  \<open>meta.FindStatusCondition\<close>, as the index of the first condition of the type (the
  library returns a pointer to that element).
\<close>

fun FindStatusCondition :: "Condition list \<Rightarrow> string \<Rightarrow> nat option" where
  "FindStatusCondition [] conditionType = None"
| "FindStatusCondition (c # cs) conditionType =
     (if Condition.Type c = conditionType then Some 0
      else map_option Suc (FindStatusCondition cs conditionType))"

text \<open>
  \<open>meta.SetStatusCondition(&conditions, newCondition)\<close>: append when no condition of the
  type exists, otherwise overwrite status, reason, message and observed generation of
  the existing one in place, moving its transition time only when the status changes.
\<close>

definition SetStatusCondition :: "Time \<Rightarrow> Condition list \<Rightarrow> Condition \<Rightarrow> Condition list" where
  "SetStatusCondition now conditions newCondition =
     (case FindStatusCondition conditions (Condition.Type newCondition) of
        None \<Rightarrow>
          conditions @
            [if IsZero (LastTransitionTime newCondition)
             then newCondition\<lparr>LastTransitionTime := now\<rparr> else newCondition]
      | Some i \<Rightarrow>
          (let existing = conditions ! i;
               existing =
                 (if Condition.Status existing \<noteq> Condition.Status newCondition then
                    existing\<lparr>Condition.Status := Condition.Status newCondition,
                      LastTransitionTime :=
                        (if \<not> IsZero (LastTransitionTime newCondition)
                         then LastTransitionTime newCondition else now)\<rparr>
                  else existing)
           in conditions[i := existing\<lparr>Reason := Reason newCondition,
                Message := Message newCondition,
                ObservedGeneration := ObservedGeneration newCondition\<rparr>]))"

text \<open>\<open>meta.IsStatusConditionTrue\<close>: the first condition of the type decides.\<close>

fun IsStatusConditionPresentAndEqual :: "Condition list \<Rightarrow> string \<Rightarrow> string \<Rightarrow> bool" where
  "IsStatusConditionPresentAndEqual [] conditionType status = False"
| "IsStatusConditionPresentAndEqual (c # cs) conditionType status =
     (if Condition.Type c = conditionType then Condition.Status c = status
      else IsStatusConditionPresentAndEqual cs conditionType status)"

definition IsStatusConditionTrue :: "Condition list \<Rightarrow> string \<Rightarrow> bool" where
  "IsStatusConditionTrue conditions conditionType =
     IsStatusConditionPresentAndEqual conditions conditionType ConditionTrue"


section \<open>The AtlasSchema resource (api/v1alpha1)\<close>

text \<open>
  \<open>net/url.URL\<close> and \<open>net/url.Userinfo\<close>, with every field of the library's structs.
  Pointers that may be \<open>nil\<close> are options. \<open>url_zero\<close> is the zero value \<open>url.URL{}\<close>: a
  composite literal such as \<open>&url.URL{Scheme: s, Path: p}\<close> is \<open>url_zero\<close> with those fields
  set.
\<close>

record Userinfo =
  username :: string
  password :: string
  passwordSet :: bool

record url =
  Scheme :: string
  Opaque :: string
  User :: "Userinfo option"
  Host :: string
  Path :: string
  RawPath :: string
  OmitHost :: bool
  ForceQuery :: bool
  RawQuery :: string
  Fragment :: string
  RawFragment :: string

definition url_zero :: url where
  "url_zero = \<lparr>Scheme = [], Opaque = [], User = None, Host = [], Path = [], RawPath = [],
     OmitHost = False, ForceQuery = False, RawQuery = [], Fragment = [], RawFragment = []\<rparr>"

record ConfigMapKeySelector =
  Name :: string
  Key :: string

record SecretKeySelector =
  Name :: string
  Key :: string

record Schema =
  SQL :: string
  HCL :: string
  URL :: string
  ConfigMapKeyRef :: "ConfigMapKeySelector option"

record CheckConfig =
  Error :: bool

record Lint =
  Destructive :: "CheckConfig option"
  Review :: string

text \<open>
  \<open>Policy.Diff\<close> is read by the configuration template only and is left out, as are
  \<open>DevLabels\<close>, \<open>DevAnnotations\<close> and the inlined \<open>TargetSpec\<close>, which only the dev-database
  provisioner and \<open>DatabaseURL\<close> read.
\<close>

record Policy =
  Lint :: "Lint option"

record Secret =
  SecretKeyRef :: "SecretKeySelector option"

record CloudSpec =
  TokenFrom :: Secret
  Repo :: string

record AtlasSchemaSpec =
  Schema :: Schema
  Cloud :: CloudSpec
  DevURL :: string
  DevURLFrom :: Secret
  Exclude :: "string list"
  TxMode :: string
  Policy :: "Policy option"
  Schemas :: "string list"

record AtlasSchemaStatus =
  Conditions :: "Condition list"
  ObservedHash :: string
  LastApplied :: int
  PlanURL :: string
  PlanLink :: string

record AtlasSchema =
  Namespace :: string
  Name :: string
  Spec :: AtlasSchemaSpec
  Status :: AtlasSchemaStatus

definition LintReviewAlways :: string where
  "LintReviewAlways = ''ALWAYS''"

definition LintReviewWarning :: string where
  "LintReviewWarning = ''WARNING''"

definition LintReviewError :: string where
  "LintReviewError = ''ERROR''"

definition SchemaTypeAtlas :: string where
  "SchemaTypeAtlas = ''atlas''"

definition SchemaTypeFile :: string where
  "SchemaTypeFile = ''file''"

text \<open>
  Modelled from the spec: the constant \<open>readyCond\<close> is not among the sources. The
  specification names the authoritative condition: the one of type "Ready".
\<close>

definition readyCond :: string where
  "readyCond = ''Ready''"

section \<open>The report of the engine's apply (atlasexec)\<close>

record SchemaPlanFile =
  URL :: string
  Link :: string
  Status :: string

record SchemaPlan =
  File :: "SchemaPlanFile option"

record Changes =
  Applied :: "string list"
  Pending :: "string list"

record SchemaApply =
  Changes :: Changes
  Plan :: "SchemaPlan option"

section \<open>Reading and writing the Ready condition\<close>

definition IsReady :: "AtlasSchema \<Rightarrow> bool" where
  "IsReady m = IsStatusConditionTrue (Conditions (AtlasSchema.Status m)) readyCond"

definition IsHashModified :: "AtlasSchema \<Rightarrow> string \<Rightarrow> bool" where
  "IsHashModified sc hash = (hash \<noteq> ObservedHash (AtlasSchema.Status sc))"

text \<open>
  \<open>SetReady(status, report)\<close>. \<open>json.Marshal\<close> is the parameter \<open>marshal\<close>; \<open>report\<close> is
  \<open>None\<close> for the untyped \<open>nil\<close>. The assignment \<open>sc.Status = status\<close> replaces the whole
  status, conditions included, before the condition is set.
\<close>

definition SetReady ::
  "(SchemaApply \<Rightarrow> error + string) \<Rightarrow> Time \<Rightarrow> AtlasSchema \<Rightarrow> AtlasSchemaStatus \<Rightarrow>
     SchemaApply option \<Rightarrow> AtlasSchema" where
  "SetReady marshal now sc status report =
     (let msg =
            (case report of
               Some rep \<Rightarrow>
                 (case marshal rep of
                    Inl err \<Rightarrow> ''Error marshalling apply response: '' @ err_Error err
                  | Inr j \<Rightarrow> ''The schema has been applied successfully. Apply response: '' @ j)
             | None \<Rightarrow> ''The schema has been applied successfully.'');
          sc = sc\<lparr>AtlasSchema.Status := status\<rparr>
      in sc\<lparr>AtlasSchema.Status := (AtlasSchema.Status sc)\<lparr>Conditions :=
            SetStatusCondition now (Conditions (AtlasSchema.Status sc))
              \<lparr>Condition.Type = readyCond, Condition.Status = ConditionTrue,
               ObservedGeneration = 0, LastTransitionTime = 0,
               Reason = ''Applied'', Message = msg\<rparr>\<rparr>\<rparr>)"

definition SetNotReady :: "Time \<Rightarrow> AtlasSchema \<Rightarrow> string \<Rightarrow> string \<Rightarrow> AtlasSchema" where
  "SetNotReady now sc reason msg =
     sc\<lparr>AtlasSchema.Status := (AtlasSchema.Status sc)\<lparr>Conditions :=
          SetStatusCondition now (Conditions (AtlasSchema.Status sc))
            \<lparr>Condition.Type = readyCond, Condition.Status = ConditionFalse,
             ObservedGeneration = 0, LastTransitionTime = 0,
             Reason = reason, Message = msg\<rparr>\<rparr>\<rparr>"

text \<open>The first condition of a type, and the Ready condition of a resource.\<close>

definition cond_of :: "Condition list \<Rightarrow> string \<Rightarrow> Condition option" where
  "cond_of cs t = map_option (\<lambda>i. cs ! i) (FindStatusCondition cs t)"

definition ReadyCondition :: "AtlasSchema \<Rightarrow> Condition option" where
  "ReadyCondition sc = cond_of (Conditions (AtlasSchema.Status sc)) readyCond"

section \<open>Library functions of Go\<close>

text \<open>\<open>strings.Join(elems, sep)\<close> and \<open>strconv.FormatBool\<close>.\<close>

fun Join :: "string list \<Rightarrow> string \<Rightarrow> string" where
  "Join [] sep = []"
| "Join [x] sep = x"
| "Join (x # y # ys) sep = x @ sep @ Join (y # ys) sep"

definition FormatBool :: "bool \<Rightarrow> string" where
  "FormatBool b = (if b then ''true'' else ''false'')"

text \<open>
  \<open>filepath.Ext(path)\<close>: the suffix that starts at the last dot of the last element of
  the path, scanning backwards as the library does; \<open>rpath\<close> is the path reversed and
  \<open>acc\<close> the part already passed.
\<close>

fun ext_scan :: "string \<Rightarrow> string \<Rightarrow> string" where
  "ext_scan [] acc = []"
| "ext_scan (c # rpath) acc =
     (if c = CHR ''/'' then []
      else if c = CHR ''.'' then c # acc
      else ext_scan rpath (c # acc))"

definition Ext :: "string \<Rightarrow> string" where
  "Ext path = ext_scan (rev path) []"

text \<open>
  Library functions that are not spelled out here are parameters of the model, held in
  \<open>stdlib\<close>: \<open>url.Parse\<close>, the method \<open>(*url.URL).String()\<close> (\<open>url_String\<close>), the verb \<open>%q\<close>
  of \<open>fmt\<close> (\<open>Quote\<close>), \<open>strings.ToLower\<close>, \<open>path.Join\<close>, \<open>json.Marshal\<close> and the verb
  \<open>%.8s\<close> (\<open>Sprintf_8s\<close>, the first eight runes). Every theorem holds for any functions in
  their place.
\<close>

record stdlib =
  url_Parse :: "string \<Rightarrow> error + url"
  url_String :: "url \<Rightarrow> string"
  Quote :: "string \<Rightarrow> string"
  ToLower :: "string \<Rightarrow> string"
  path_Join :: "string \<Rightarrow> string \<Rightarrow> string"
  json_Marshal :: "SchemaApply \<Rightarrow> error + string"
  Sprintf_8s :: "string \<Rightarrow> string"

section \<open>SHA-256 (crypto/sha256) and hexadecimal encoding (encoding/hex)\<close>

definition rotr :: "nat \<Rightarrow> 32 word \<Rightarrow> 32 word" where
  "rotr n x = word_rotr n x"

definition Ch :: "32 word \<Rightarrow> 32 word \<Rightarrow> 32 word \<Rightarrow> 32 word" where
  "Ch x y z = (x AND y) XOR (NOT x AND z)"

definition Maj :: "32 word \<Rightarrow> 32 word \<Rightarrow> 32 word \<Rightarrow> 32 word" where
  "Maj x y z = (x AND y) XOR (x AND z) XOR (y AND z)"

definition bsig0 :: "32 word \<Rightarrow> 32 word" where
  "bsig0 x = rotr 2 x XOR rotr 13 x XOR rotr 22 x"

definition bsig1 :: "32 word \<Rightarrow> 32 word" where
  "bsig1 x = rotr 6 x XOR rotr 11 x XOR rotr 25 x"

definition ssig0 :: "32 word \<Rightarrow> 32 word" where
  "ssig0 x = rotr 7 x XOR rotr 18 x XOR drop_bit 3 x"

definition ssig1 :: "32 word \<Rightarrow> 32 word" where
  "ssig1 x = rotr 17 x XOR rotr 19 x XOR drop_bit 10 x"

definition K256 :: "32 word list" where
  "K256 =
    [0x428a2f98, 0x71374491, 0xb5c0fbcf, 0xe9b5dba5, 0x3956c25b, 0x59f111f1, 0x923f82a4, 0xab1c5ed5,
     0xd807aa98, 0x12835b01, 0x243185be, 0x550c7dc3, 0x72be5d74, 0x80deb1fe, 0x9bdc06a7, 0xc19bf174,
     0xe49b69c1, 0xefbe4786, 0x0fc19dc6, 0x240ca1cc, 0x2de92c6f, 0x4a7484aa, 0x5cb0a9dc, 0x76f988da,
     0x983e5152, 0xa831c66d, 0xb00327c8, 0xbf597fc7, 0xc6e00bf3, 0xd5a79147, 0x06ca6351, 0x14292967,
     0x27b70a85, 0x2e1b2138, 0x4d2c6dfc, 0x53380d13, 0x650a7354, 0x766a0abb, 0x81c2c92e, 0x92722c85,
     0xa2bfe8a1, 0xa81a664b, 0xc24b8b70, 0xc76c51a3, 0xd192e819, 0xd6990624, 0xf40e3585, 0x106aa070,
     0x19a4c116, 0x1e376c08, 0x2748774c, 0x34b0bcb5, 0x391c0cb3, 0x4ed8aa4a, 0x5b9cca4f, 0x682e6ff3,
     0x748f82ee, 0x78a5636f, 0x84c87814, 0x8cc70208, 0x90befffa, 0xa4506ceb, 0xbef9a3f7, 0xc67178f2]"

definition init256 :: "32 word list" where
  "init256 =
    [0x6a09e667, 0xbb67ae85, 0x3c6ef372, 0xa54ff53a, 0x510e527f, 0x9b05688c, 0x1f83d9ab, 0x5be0cd19]"

text \<open>The message length in bits as eight bytes, most significant first.\<close>

definition be64 :: "nat \<Rightarrow> 8 word list" where
  "be64 n = map (\<lambda>i. ucast (drop_bit (8 * i) (of_nat n :: 64 word))) [7, 6, 5, 4, 3, 2, 1, 0]"

definition pad :: "8 word list \<Rightarrow> 8 word list" where
  "pad m = m @ [0x80] @ replicate ((119 - length m mod 64) mod 64) 0 @ be64 (8 * length m)"

fun be32 :: "8 word list \<Rightarrow> 32 word list" where
  "be32 (a # b # c # d # bs) =
     (push_bit 24 (ucast a) OR push_bit 16 (ucast b) OR push_bit 8 (ucast c) OR ucast d) # be32 bs"
| "be32 _ = []"

text \<open>The message schedule: sixteen words of the block extended to sixty-four.\<close>

fun extend :: "nat \<Rightarrow> 32 word list \<Rightarrow> 32 word list" where
  "extend 0 ws = ws"
| "extend (Suc n) ws =
     extend n (ws @ [ssig1 (ws ! (length ws - 2)) + ws ! (length ws - 7)
                     + ssig0 (ws ! (length ws - 15)) + ws ! (length ws - 16)])"

fun round256 :: "32 word list \<Rightarrow> 32 word \<times> 32 word \<Rightarrow> 32 word list" where
  "round256 [a, b, c, d, e, f, g, h] (k, w) =
     (let t1 = h + bsig1 e + Ch e f g + k + w; t2 = bsig0 a + Maj a b c
      in [t1 + t2, a, b, c, d + t1, e, f, g])"
| "round256 st _ = st"

definition block256 :: "32 word list \<Rightarrow> 8 word list \<Rightarrow> 32 word list" where
  "block256 hs blk = map2 (+) hs (foldl round256 hs (zip K256 (extend 48 (be32 blk))))"

function blocks256 :: "32 word list \<Rightarrow> 8 word list \<Rightarrow> 32 word list" where
  "blocks256 hs bs =
     (if length bs < 64 then hs else blocks256 (block256 hs (take 64 bs)) (drop 64 bs))"
  by pat_completeness auto
termination
  by (relation "measure (\<lambda>(hs, bs). length bs)") auto

declare blocks256.simps [simp del]

definition bytes32 :: "32 word \<Rightarrow> 8 word list" where
  "bytes32 w = map (\<lambda>i. ucast (drop_bit (8 * i) w)) [3, 2, 1, 0]"

text \<open>\<open>h := sha256.New(); h.Write(m); h.Sum(nil)\<close>.\<close>

definition Sum256 :: "string \<Rightarrow> 8 word list" where
  "Sum256 m = concat (map bytes32 (blocks256 init256 (pad (map of_char m))))"

definition hexdigit :: "nat \<Rightarrow> char" where
  "hexdigit n = (''0123456789abcdef'' ! n)"

definition EncodeToString :: "8 word list \<Rightarrow> string" where
  "EncodeToString bs = concat (map (\<lambda>b. [hexdigit (unat b div 16), hexdigit (unat b mod 16)]) bs)"

section \<open>The managed data and its hash\<close>

text \<open>
  The type \<open>Cloud\<close> of the controller package is declared outside the sources; \<open>Token\<close> and
  \<open>Repo\<close> are the fields the controller sets and reads.
\<close>

record Cloud =
  Token :: string
  Repo :: string

record managedData =
  EnvName :: string
  URL :: "url option"
  DevURL :: string
  Schemas :: "string list"
  Exclude :: "string list"
  Policy :: "Policy option"
  TxMode :: string
  Desired :: "url option"
  Cloud :: "Cloud option"
  schema :: string

definition shouldLint :: "managedData \<Rightarrow> bool" where
  "shouldLint d =
     (case managedData.Policy d of
        None \<Rightarrow> False
      | Some p \<Rightarrow>
          (case Policy.Lint p of
             None \<Rightarrow> False
           | Some l \<Rightarrow> (case Destructive l of None \<Rightarrow> False | Some c \<Rightarrow> CheckConfig.Error c)))"

text \<open>
  \<open>hash()\<close>. The method returns the pair of the digest and an error that is always
  \<open>nil\<close>. \<open>d.Desired.String()\<close> on a \<open>nil\<close> pointer panics. \<open>L\<close> is the library, for
  \<open>String()\<close>.
\<close>

definition hash :: "stdlib \<Rightarrow> managedData \<Rightarrow> panic + string \<times> error option" where
  "hash L d =
     (if length (schema d) > 0 then Inr (EncodeToString (Sum256 (schema d)), None)
      else (case Desired d of
              None \<Rightarrow> Inl NilPointer
            | Some u \<Rightarrow> Inr (EncodeToString (Sum256 (url_String L u)), None)))"

text \<open>
  The bytes of a desired state as the specification words them: the literal schema
  content when it is available, otherwise the canonical string form of the locator.
\<close>

definition desired_bytes :: "stdlib \<Rightarrow> managedData \<Rightarrow> string option" where
  "desired_bytes L d =
     (if schema d \<noteq> [] then Some (schema d) else map_option (url_String L) (Desired d))"

definition repoURL :: "managedData \<Rightarrow> panic + url option" where
  "repoURL d =
     (let fallback =
            (case Desired d of
               None \<Rightarrow> Inl NilPointer
             | Some u \<Rightarrow>
                 if Scheme u = SchemaTypeAtlas then Inr (Some (u\<lparr>RawQuery := []\<rparr>))
                 else Inr None)
      in case managedData.Cloud d of
           None \<Rightarrow> fallback
         | Some c \<Rightarrow>
             if Cloud.Repo c \<noteq> [] then
               Inr (Some (url_zero\<lparr>Scheme := SchemaTypeAtlas, Host := Cloud.Repo c\<rparr>))
             else fallback)"

section \<open>The collaborators of a reconciliation pass\<close>

text \<open>
  What the pass reads from outside is a parameter of the model, as the library functions
  of \<open>stdlib\<close> are.
\<close>

text \<open>
  The API server and the helpers that read it: \<open>r.Get\<close> of the reconciled resource,
  \<open>r.Get\<close> of a ConfigMap (by namespace and name, giving its \<open>Data\<close>), and the helpers
  \<open>getSecretValue\<close>, \<open>DatabaseURL\<close> and \<open>devDB.devURL\<close>, which are not among the sources.
\<close>

record cluster =
  Get :: "error + AtlasSchema"
  getConfigMap :: "string \<Rightarrow> string \<Rightarrow> error + (string \<rightharpoonup> string)"
  getSecretValue :: "string \<Rightarrow> SecretKeySelector \<Rightarrow> error + string"
  DatabaseURL :: "AtlasSchemaSpec \<Rightarrow> string \<Rightarrow> error + url"
  devURL :: "AtlasSchema \<Rightarrow> url \<Rightarrow> error + string"

text \<open>The parameters and results of the Migration Engine Client (atlasexec).\<close>

type_synonym Vars2 = "string \<rightharpoonup> string"

record SchemaApplyParams =
  Env :: string
  Vars :: Vars2
  To :: string
  TxMode :: string
  AutoApprove :: bool
  PlanURL :: string

record SchemaInspectParams =
  Env :: string
  Vars :: Vars2
  URL :: string
  Format :: string

record SchemaPushParams =
  Env :: string
  Vars :: Vars2
  Name :: string
  Tag :: string
  URL :: "string list"

record SchemaPlanParams =
  Env :: string
  Vars :: Vars2
  Repo :: string
  From :: "string list"
  To :: "string list"
  Pending :: bool

record SchemaPlanListParams =
  Env :: string
  Vars :: Vars2
  Repo :: string
  From :: "string list"
  To :: "string list"

record WhoAmI =
  Org :: string

record SchemaPush =
  URL :: string

text \<open>
  The engine: the working directory and the client factory, the client's operations as
  functions of their parameters, and the method \<open>r.lint\<close>, which is not among the
  sources. An operation returns either an error or a result.
\<close>

record engine =
  NewWorkingDir :: "managedData \<Rightarrow> error option"
  atlasClient :: "Cloud option \<Rightarrow> error option"
  WhoAmI :: "error + WhoAmI"
  SchemaApply :: "SchemaApplyParams \<Rightarrow> error + SchemaApply"
  SchemaInspect :: "SchemaInspectParams \<Rightarrow> error + string"
  SchemaPush :: "SchemaPushParams \<Rightarrow> error + SchemaPush"
  SchemaPlan :: "SchemaPlanParams \<Rightarrow> error + SchemaPlan"
  SchemaPlanList :: "SchemaPlanListParams \<Rightarrow> error + SchemaPlanFile list"
  lint :: "managedData \<Rightarrow> Vars2 \<Rightarrow> error option"

text \<open>
  The world of one pass: the three above, the clock (\<open>time_Now\<close> for the transition time of a
  condition, \<open>time_Now_Unix\<close> for \<open>time.Now().Unix()\<close>), and the helper \<open>isSQLErr\<close> and the
  constant \<open>defaultEnvName\<close>, which are not among the sources.
\<close>

record world =
  lib :: stdlib
  k8s :: cluster
  atlas :: engine
  time_Now :: Time
  time_Now_Unix :: int
  isSQLErr :: "error \<Rightarrow> bool"
  defaultEnvName :: string

section \<open>Schema.DesiredState\<close>

text \<open>
  \<open>DesiredState(ctx, r, ns)\<close> returns the locator and the schema bytes, or an error. The
  Go function returns \<open>nil\<close> bytes in the URL case, which is the empty string here.
\<close>

definition DesiredState :: "world \<Rightarrow> Schema \<Rightarrow> string \<Rightarrow> error + url \<times> string" where
  "DesiredState w s ns =
     (case ConfigMapKeyRef s of
        Some ref \<Rightarrow>
          (case getConfigMap (k8s w) ns (ConfigMapKeySelector.Name ref) of
             Inl err \<Rightarrow> Inl err
           | Inr val \<Rightarrow>
               (let ext = ToLower (lib w) (Ext (ConfigMapKeySelector.Key ref)) in
                case val (ConfigMapKeySelector.Key ref) of
                  None \<Rightarrow>
                    Inl (errors_New (''configmaps '' @ ns @ ''/'' @ ConfigMapKeySelector.Name ref
                           @ '' does not contain key '' @ Quote (lib w) (ConfigMapKeySelector.Key ref)))
                | Some desired \<Rightarrow>
                    if ext = ''.hcl'' \<or> ext = ''.sql'' then
                      Inr (url_zero\<lparr>Scheme := SchemaTypeFile, Path := ''schema'' @ ext\<rparr>, desired)
                    else
                      Inl (errors_New (''configmaps key '' @ Quote (lib w) (ConfigMapKeySelector.Key ref)
                             @ '' must be ending with .sql or .hcl, received '' @ Quote (lib w) ext))))
      | None \<Rightarrow>
          if HCL s \<noteq> [] then
            Inr (url_zero\<lparr>Scheme := SchemaTypeFile, Path := ''schema.hcl''\<rparr>, HCL s)
          else if SQL s \<noteq> [] then
            Inr (url_zero\<lparr>Scheme := SchemaTypeFile, Path := ''schema.sql''\<rparr>, SQL s)
          else if Schema.URL s \<noteq> [] then
            (case url_Parse (lib w) (Schema.URL s) of
               Inl err \<Rightarrow> Inl err
             | Inr u \<Rightarrow>
                 if Scheme u \<noteq> SchemaTypeAtlas then
                   Inl (errors_New (''unsupported URL schema '' @ Quote (lib w) (Scheme u)))
                 else Inr (u, []))
          else Inl (errors_New ''no desired state specified''))"

section \<open>extractData\<close>

definition extractData :: "world \<Rightarrow> AtlasSchema \<Rightarrow> error + managedData" where
  "extractData w res =
     (let s = Spec res;
          c = AtlasSchemaSpec.Cloud s;
          data = \<lparr>EnvName = defaultEnvName w, managedData.URL = None,
                  managedData.DevURL = AtlasSchemaSpec.DevURL s,
                  managedData.Schemas = AtlasSchemaSpec.Schemas s,
                  managedData.Exclude = AtlasSchemaSpec.Exclude s,
                  managedData.Policy = AtlasSchemaSpec.Policy s,
                  managedData.TxMode = AtlasSchemaSpec.TxMode s,
                  Desired = None, managedData.Cloud = None, schema = []\<rparr>
      in case (case SecretKeyRef (TokenFrom c) of
                 None \<Rightarrow> Inr data
               | Some sel \<Rightarrow>
                   (case getSecretValue (k8s w) (Namespace res) sel of
                      Inl err \<Rightarrow> Inl err
                    | Inr token \<Rightarrow>
                        Inr (data\<lparr>managedData.Cloud := Some \<lparr>Token = token, Cloud.Repo = []\<rparr>\<rparr>))) of
           Inl err \<Rightarrow> Inl err
         | Inr data \<Rightarrow>
             (let data =
                    (if CloudSpec.Repo c \<noteq> [] then
                       data\<lparr>managedData.Cloud :=
                         Some ((case managedData.Cloud data of
                                  None \<Rightarrow> \<lparr>Token = [], Cloud.Repo = []\<rparr>
                                | Some cl \<Rightarrow> cl)\<lparr>Cloud.Repo := CloudSpec.Repo c\<rparr>)\<rparr>
                     else data)
              in case DatabaseURL (k8s w) s (Namespace res) of
                   Inl err \<Rightarrow> Inl (transient err)
                 | Inr u \<Rightarrow>
                     (let data = data\<lparr>managedData.URL := Some u\<rparr> in
                      case DesiredState w (AtlasSchemaSpec.Schema s) (Namespace res) of
                        Inl err \<Rightarrow> Inl (transient err)
                      | Inr (d, bytes) \<Rightarrow>
                          (let data = data\<lparr>Desired := Some d, schema := bytes\<rparr> in
                           case SecretKeyRef (DevURLFrom s) of
                             None \<Rightarrow> Inr data
                           | Some sel \<Rightarrow>
                               (case getSecretValue (k8s w) (Namespace res) sel of
                                  Inl err \<Rightarrow> Inl err
                                | Inr v \<Rightarrow> Inr (data\<lparr>managedData.DevURL := v\<rparr>))))))"

section \<open>The result of a pass\<close>

text \<open>
  \<open>ctrl.Result\<close>; a \<open>time.Duration\<close> counts nanoseconds.
\<close>

record ctrl_Result =
  Requeue :: bool
  RequeueAfter :: int

definition Second :: int where
  "Second = 1000000000"

text \<open>
  Modelled from the spec: the helper \<open>result\<close> is called by the controller and is not
  among the sources. The specification (Error Classifier) says that the retry directive
  is returned "per classification", that a transient failure makes "the caller's retry
  scheduler" requeue, and that a fatal (non-transient) failure "deliberately suppress[es]
  automatic requeue". So \<open>result\<close> asks for a requeue exactly for a transient error and
  hands no error back to the scheduler, since a returned error would itself make the
  scheduler retry.
\<close>

definition result :: "error \<Rightarrow> ctrl_Result \<times> error option" where
  "result err = (\<lparr>Requeue = isTransient err, RequeueAfter = 0\<rparr>, None)"

text \<open>
  How \<open>Reconcile\<close> returns: with a literal \<open>ctrl.Result\<close> and an error that may be
  \<open>nil\<close>, through \<open>return result(err)\<close>, or by a run-time panic. \<open>scheduled\<close> is the pair
  that reaches the scheduler; a pass is requeued when that pair asks for it, which in
  controller-runtime is a non-nil error, \<open>Requeue\<close>, or a positive \<open>RequeueAfter\<close>.
\<close>

datatype returned = Return ctrl_Result "error option" | ReturnResult error | Panicked panic

fun scheduled :: "returned \<Rightarrow> (ctrl_Result \<times> error option) option" where
  "scheduled (Return r e) = Some (r, e)"
| "scheduled (ReturnResult err) = Some (result err)"
| "scheduled (Panicked p) = None"

definition requeues :: "ctrl_Result \<times> error option \<Rightarrow> bool" where
  "requeues re = (snd re \<noteq> None \<or> Requeue (fst re) \<or> 0 < RequeueAfter (fst re))"

text \<open>
  The calls a pass makes to the engine, in order, each with its parameters and with what
  the engine returned.
\<close>

datatype call =
    WhoAmICall "error + WhoAmI"
  | LintCall Vars2 "error option"
  | SchemaApplyCall SchemaApplyParams "error + SchemaApply"
  | SchemaInspectCall SchemaInspectParams "error + string"
  | SchemaPushCall SchemaPushParams "error + SchemaPush"
  | SchemaPlanCall SchemaPlanParams "error + SchemaPlan"
  | SchemaPlanListCall SchemaPlanListParams "error + SchemaPlanFile list"

text \<open>
  The outcome of a pass: the resource that the deferred function hands to
  \<open>r.Status().Update\<close> (none when the pass returns before the function is registered),
  how the pass returned, and the engine calls it made. Logging, the events sent to the
  recorder, the registration of watches and the clean-up of the dev database write
  neither the resource nor the result and are not part of the outcome.
\<close>

record outcome =
  updated :: "AtlasSchema option"
  returned :: returned
  calls :: "call list"

text \<open>Observations on a trace and on the Ready condition, used to state the properties.\<close>

fun is_apply :: "call \<Rightarrow> bool" where
  "is_apply (SchemaApplyCall p r) = True"
| "is_apply _ = False"

fun is_plan_step :: "call \<Rightarrow> bool" where
  "is_plan_step (SchemaInspectCall p r) = True"
| "is_plan_step (SchemaPushCall p r) = True"
| "is_plan_step (SchemaPlanCall p r) = True"
| "is_plan_step _ = False"

definition NotReadyWith :: "AtlasSchema \<Rightarrow> string \<Rightarrow> string \<Rightarrow> bool" where
  "NotReadyWith sc reason msg =
     (case ReadyCondition sc of
        None \<Rightarrow> False
      | Some c \<Rightarrow> Condition.Status c = ConditionFalse \<and> Reason c = reason \<and> Message c = msg)"

definition finish :: "AtlasSchema \<Rightarrow> call list \<Rightarrow> returned \<Rightarrow> outcome" where
  "finish res cs r = \<lparr>updated = Some res, returned = r, calls = cs\<rparr>"

text \<open>
  The block that the controller repeats after a failed engine call: set the not-ready
  condition with the message of the error, wrap the error as transient unless
  \<open>isSQLErr\<close> holds, and \<open>return result(err)\<close>.
\<close>

definition failed :: "world \<Rightarrow> AtlasSchema \<Rightarrow> call list \<Rightarrow> string \<Rightarrow> error \<Rightarrow> outcome" where
  "failed w res cs reason err =
     finish (SetNotReady (time_Now w) res reason (err_Error err)) cs
       (ReturnResult (if \<not> isSQLErr w err then transient err else err))"

section \<open>Reconcile\<close>

text \<open>
  The closure \<open>createPlan\<close>. \<open>desired\<close> is \<open>data.Desired\<close>, \<open>hsh\<close> the variable \<open>hash\<close>, \<open>repo\<close> the repository URL,
  \<open>desiredURL\<close> the captured variable, which the push overwrites.
\<close>

definition createPlan ::
  "world \<Rightarrow> AtlasSchema \<Rightarrow> managedData \<Rightarrow> url \<Rightarrow> url \<Rightarrow> Vars2 \<Rightarrow> string \<Rightarrow> string \<Rightarrow>
     call list \<Rightarrow> outcome" where
  "createPlan w res data desired repo vars hsh desiredURL cs =
     (case (if Scheme desired = SchemaTypeFile then
              (let ip = \<lparr>SchemaInspectParams.Env = EnvName data, SchemaInspectParams.Vars = vars,
                         SchemaInspectParams.URL = desiredURL, Format = ''{{ .Hash | base64url }}''\<rparr>;
                   cs = cs @ [SchemaInspectCall ip (SchemaInspect (atlas w) ip)]
               in case SchemaInspect (atlas w) ip of
                    Inl err \<Rightarrow> Inl (failed w res cs ''SchemaPush'' err)
                  | Inr tag \<Rightarrow>
                      (let pp = \<lparr>SchemaPushParams.Env = EnvName data, SchemaPushParams.Vars = vars,
                                 SchemaPushParams.Name = path_Join (lib w) (Host repo) (Path repo),
                                 Tag = ''operator-plan-'' @ Sprintf_8s (lib w) (ToLower (lib w) tag),
                                 SchemaPushParams.URL = [desiredURL]\<rparr>;
                           cs = cs @ [SchemaPushCall pp (SchemaPush (atlas w) pp)]
                       in case SchemaPush (atlas w) pp of
                            Inl err \<Rightarrow> Inl (failed w res cs ''SchemaPush'' err)
                          | Inr state \<Rightarrow> Inr (SchemaPush.URL state, cs)))
            else Inr (desiredURL, cs)) of
        Inl out \<Rightarrow> out
      | Inr (desiredURL, cs) \<Rightarrow>
          (let pl = \<lparr>SchemaPlanParams.Env = EnvName data, SchemaPlanParams.Vars = vars,
                     SchemaPlanParams.Repo = url_String (lib w) repo, SchemaPlanParams.From = [''env://url''],
                     SchemaPlanParams.To = [desiredURL], Pending = True\<rparr>;
               cs = cs @ [SchemaPlanCall pl (SchemaPlan (atlas w) pl)]
           in case SchemaPlan (atlas w) pl of
                Inl err \<Rightarrow>
                  if sublist ''no changes to be made'' (err_Error err) then
                    finish (SetReady (json_Marshal (lib w)) (time_Now w) res
                              \<lparr>Conditions = [], ObservedHash = hsh, LastApplied = time_Now_Unix w,
                               AtlasSchemaStatus.PlanURL = [], PlanLink = []\<rparr> None)
                      cs (Return \<lparr>Requeue = False, RequeueAfter = 0\<rparr> None)
                  else failed w res cs ''SchemaPlan'' err
              | Inr plan \<Rightarrow>
                  (case File plan of
                     None \<Rightarrow> finish res cs (Panicked NilPointer)
                   | Some f \<Rightarrow>
                       (let res = res\<lparr>AtlasSchema.Status := (AtlasSchema.Status res)
                                    \<lparr>AtlasSchemaStatus.PlanURL := SchemaPlanFile.URL f,
                                     PlanLink := Link f\<rparr>\<rparr>
                        in finish (SetNotReady (time_Now w) res ''ApprovalPending''
                                     ''Schema plan is waiting for approval'')
                             cs (Return \<lparr>Requeue = False, RequeueAfter = Second * 5\<rparr> None)))))"

text \<open>
  The end of the pass, after the \<open>switch\<close>: \<open>r\<close> is what \<open>SchemaApply\<close> returned.
\<close>

definition applied ::
  "world \<Rightarrow> AtlasSchema \<Rightarrow> string \<Rightarrow> call list \<Rightarrow> error + SchemaApply \<Rightarrow> outcome" where
  "applied w res hsh cs r =
     (case r of
        Inl err \<Rightarrow> failed w res cs ''ApplyingSchema'' err
      | Inr report \<Rightarrow>
          (case truncateSQL (Applied (Changes report)) sqlLimitSize of
             Inl p \<Rightarrow> finish res cs (Panicked p)
           | Inr ap \<Rightarrow>
               (case truncateSQL (Changes.Pending (Changes report)) sqlLimitSize of
                  Inl p \<Rightarrow> finish res cs (Panicked p)
                | Inr pe \<Rightarrow>
                    (let report = report\<lparr>Changes := \<lparr>Applied = ap, Changes.Pending = pe\<rparr>\<rparr>;
                         s = \<lparr>Conditions = [], ObservedHash = hsh, LastApplied = time_Now_Unix w,
                              AtlasSchemaStatus.PlanURL = [], PlanLink = []\<rparr>
                     in case (case Plan report of
                                None \<Rightarrow> Inr s
                              | Some p \<Rightarrow>
                                  (case File p of
                                     None \<Rightarrow> Inl NilPointer
                                   | Some f \<Rightarrow>
                                       Inr (s\<lparr>PlanLink := Link f,
                                              AtlasSchemaStatus.PlanURL := SchemaPlanFile.URL f\<rparr>))) of
                          Inl p \<Rightarrow> finish res cs (Panicked p)
                        | Inr s \<Rightarrow>
                            finish (SetReady (json_Marshal (lib w)) (time_Now w) res s (Some report))
                              cs (Return \<lparr>Requeue = False, RequeueAfter = 0\<rparr> None)))))"

text \<open>The lint variables of the cloud-connected case.\<close>

definition cloud_vars :: "managedData \<Rightarrow> Vars2" where
  "cloud_vars data =
     (let vars = [''lint_destructive'' \<mapsto> ''true'', ''lint_review'' \<mapsto> LintReviewError] in
      case managedData.Policy data of
        None \<Rightarrow> vars
      | Some p \<Rightarrow>
          (case Policy.Lint p of
             None \<Rightarrow> vars
           | Some l \<Rightarrow>
               (let vars =
                      (case Destructive l of
                         None \<Rightarrow> vars
                       | Some d \<Rightarrow> vars(''lint_destructive'' \<mapsto> FormatBool (CheckConfig.Error d)))
                in if Review l \<noteq> [] then vars(''lint_review'' \<mapsto> Review l) else vars)))"

text \<open>The case \<open>whoami != nil\<close>: the resource is connected to Atlas Cloud.\<close>

definition cloud ::
  "world \<Rightarrow> AtlasSchema \<Rightarrow> managedData \<Rightarrow> url \<Rightarrow> string \<Rightarrow> string \<Rightarrow> call list \<Rightarrow> outcome" where
  "cloud w res data desired hsh desiredURL cs =
     (let vars = cloud_vars data;
          params = \<lparr>SchemaApplyParams.Env = EnvName data, SchemaApplyParams.Vars = vars,
                    SchemaApplyParams.To = desiredURL,
                    SchemaApplyParams.TxMode = managedData.TxMode data,
                    AutoApprove = False, SchemaApplyParams.PlanURL = []\<rparr>
      in case repoURL data of
           Inl p \<Rightarrow> finish res cs (Panicked p)
         | Inr None \<Rightarrow>
             applied w res hsh (cs @ [SchemaApplyCall params (SchemaApply (atlas w) params)])
               (SchemaApply (atlas w) params)
         | Inr (Some repo) \<Rightarrow>
             (let lp = \<lparr>SchemaPlanListParams.Env = EnvName data, SchemaPlanListParams.Vars = vars,
                        SchemaPlanListParams.Repo = url_String (lib w) repo,
                        SchemaPlanListParams.From = [''env://url''],
                        SchemaPlanListParams.To = [desiredURL]\<rparr>;
                  cs = cs @ [SchemaPlanListCall lp (SchemaPlanList (atlas w) lp)]
              in case SchemaPlanList (atlas w) lp of
                   Inl err \<Rightarrow> failed w res cs ''ListingPlans'' err
                 | Inr plans \<Rightarrow>
                     if length plans > 1 then
                       (let planURLs = map SchemaPlanFile.URL plans;
                            msg = ''multiple schema plans found: '' @ Join planURLs '', ''
                        in finish (SetNotReady (time_Now w) res ''ListingPlans'' msg) cs
                             (ReturnResult (errors_New msg)))
                     else if length plans = 0 \<and> vars ''lint_review'' = Some LintReviewAlways then
                       createPlan w res data desired repo vars hsh desiredURL cs
                     else if length plans = 1 \<and> SchemaPlanFile.Status (plans ! 0) = ''PENDING'' then
                       (let res = res\<lparr>AtlasSchema.Status := (AtlasSchema.Status res)
                                    \<lparr>AtlasSchemaStatus.PlanURL := SchemaPlanFile.URL (plans ! 0),
                                     PlanLink := Link (plans ! 0)\<rparr>\<rparr>
                        in finish (SetNotReady (time_Now w) res ''ApprovalPending''
                                     ''Schema plan is waiting for approval'')
                             cs (Return \<lparr>Requeue = False, RequeueAfter = Second * 5\<rparr> None))
                     else
                       (let params =
                              (if length plans = 1 \<and> SchemaPlanFile.Status (plans ! 0) = ''APPROVED''
                               then params\<lparr>SchemaApplyParams.PlanURL := SchemaPlanFile.URL (plans ! 0)\<rparr>
                               else params);
                            cs = cs @ [SchemaApplyCall params (SchemaApply (atlas w) params)]
                        in case SchemaApply (atlas w) params of
                             Inl err \<Rightarrow>
                               if prefix ''Rejected by review policy'' (err_Error err) then
                                 createPlan w res data desired repo vars hsh desiredURL cs
                               else applied w res hsh cs (Inl err)
                           | Inr report \<Rightarrow> applied w res hsh cs (Inr report))))"

text \<open>The case \<open>res.Status.LastApplied == 0\<close>: the first run is linted for destructive changes.\<close>

definition first_run ::
  "world \<Rightarrow> AtlasSchema \<Rightarrow> managedData \<Rightarrow> string \<Rightarrow> string \<Rightarrow> call list \<Rightarrow> outcome" where
  "first_run w res data hsh desiredURL cs =
     (let vars = [''lint_destructive'' \<mapsto> ''true''];
          cs = cs @ [LintCall vars (lint (atlas w) data vars)]
      in case lint (atlas w) data vars of
           Some err \<Rightarrow>
             (case As_destructiveErr err of
                Some (reason, msg) \<Rightarrow>
                  finish (SetNotReady (time_Now w) res reason msg) cs
                    (Return \<lparr>Requeue = False, RequeueAfter = 0\<rparr> None)
              | None \<Rightarrow> failed w res cs ''VerifyingFirstRun'' err)
         | None \<Rightarrow>
             (let params = \<lparr>SchemaApplyParams.Env = EnvName data, SchemaApplyParams.Vars = Map.empty,
                            SchemaApplyParams.To = desiredURL,
                            SchemaApplyParams.TxMode = managedData.TxMode data,
                            AutoApprove = True, SchemaApplyParams.PlanURL = []\<rparr>
              in applied w res hsh (cs @ [SchemaApplyCall params (SchemaApply (atlas w) params)])
               (SchemaApply (atlas w) params)))"

text \<open>The case \<open>data.shouldLint()\<close>: the lint policy is run before the apply.\<close>

definition lint_policy ::
  "world \<Rightarrow> AtlasSchema \<Rightarrow> managedData \<Rightarrow> string \<Rightarrow> string \<Rightarrow> call list \<Rightarrow> outcome" where
  "lint_policy w res data hsh desiredURL cs =
     (let vars =
            (case managedData.Policy data of
               None \<Rightarrow> Map.empty
             | Some p \<Rightarrow>
                 (case Policy.Lint p of
                    None \<Rightarrow> Map.empty
                  | Some l \<Rightarrow>
                      (case Destructive l of
                         None \<Rightarrow> Map.empty
                       | Some d \<Rightarrow> [''lint_destructive'' \<mapsto> FormatBool (CheckConfig.Error d)])));
          cs = cs @ [LintCall vars (lint (atlas w) data vars)]
      in case lint (atlas w) data vars of
           Some err \<Rightarrow> failed w res cs ''LintPolicyError'' err
         | None \<Rightarrow>
             (let params = \<lparr>SchemaApplyParams.Env = EnvName data, SchemaApplyParams.Vars = vars,
                            SchemaApplyParams.To = desiredURL,
                            SchemaApplyParams.TxMode = managedData.TxMode data,
                            AutoApprove = True, SchemaApplyParams.PlanURL = []\<rparr>
              in applied w res hsh (cs @ [SchemaApplyCall params (SchemaApply (atlas w) params)])
               (SchemaApply (atlas w) params)))"

text \<open>The default case: no lint policy is set.\<close>

definition no_policy ::
  "world \<Rightarrow> AtlasSchema \<Rightarrow> managedData \<Rightarrow> string \<Rightarrow> string \<Rightarrow> call list \<Rightarrow> outcome" where
  "no_policy w res data hsh desiredURL cs =
     (let params = \<lparr>SchemaApplyParams.Env = EnvName data, SchemaApplyParams.Vars = Map.empty,
                    SchemaApplyParams.To = desiredURL,
                    SchemaApplyParams.TxMode = managedData.TxMode data,
                    AutoApprove = True, SchemaApplyParams.PlanURL = []\<rparr>
      in applied w res hsh (cs @ [SchemaApplyCall params (SchemaApply (atlas w) params)])
               (SchemaApply (atlas w) params))"

text \<open>
  The \<open>switch\<close> on \<open>desiredURL := data.Desired.String()\<close>; \<open>whoami\<close> is \<open>None\<close> for the
  \<open>nil\<close> pointer that \<open>WhoAmI\<close> returns with \<open>ErrRequireLogin\<close>.
\<close>

definition apply_switch ::
  "world \<Rightarrow> AtlasSchema \<Rightarrow> managedData \<Rightarrow> string \<Rightarrow> WhoAmI option \<Rightarrow> call list \<Rightarrow> outcome" where
  "apply_switch w res data hsh whoami cs =
     (case Desired data of
        None \<Rightarrow> finish res cs (Panicked NilPointer)
      | Some desired \<Rightarrow>
          (let desiredURL = url_String (lib w) desired in
           if whoami \<noteq> None then cloud w res data desired hsh desiredURL cs
           else if LastApplied (AtlasSchema.Status res) = 0 then first_run w res data hsh desiredURL cs
           else if shouldLint data then lint_policy w res data hsh desiredURL cs
           else no_policy w res data hsh desiredURL cs))"

text \<open>
  The working directory, the client and \<open>WhoAmI\<close>. The engine answers \<open>WhoAmI\<close> with an
  identity or with an error.
\<close>

definition with_client :: "world \<Rightarrow> AtlasSchema \<Rightarrow> managedData \<Rightarrow> string \<Rightarrow> outcome" where
  "with_client w res data hsh =
     (case NewWorkingDir (atlas w) data of
        Some err \<Rightarrow>
          finish (SetNotReady (time_Now w) res ''CreatingWorkingDir'' (err_Error err)) []
            (ReturnResult err)
      | None \<Rightarrow>
          (case atlasClient (atlas w) (managedData.Cloud data) of
             Some err \<Rightarrow>
               finish (SetNotReady (time_Now w) res ''CreatingAtlasClient'' (err_Error err)) []
                 (ReturnResult err)
           | None \<Rightarrow>
               (case WhoAmI (atlas w) of
                  Inl err \<Rightarrow>
                    if Is_ErrRequireLogin err then
                      apply_switch w res data hsh None [WhoAmICall (WhoAmI (atlas w))]
                    else
                      finish (SetNotReady (time_Now w) res ''WhoAmI'' (err_Error err))
                        [WhoAmICall (WhoAmI (atlas w))] (ReturnResult err)
                | Inr who \<Rightarrow>
                    apply_switch w res data hsh (Some who) [WhoAmICall (WhoAmI (atlas w))])))"

text \<open>
  The heavy jobs, below the idempotency gate: a dev database is provisioned when the user
  gave no URL for one, and the pass goes on with the data that holds its URL.
\<close>

definition heavy_jobs :: "world \<Rightarrow> AtlasSchema \<Rightarrow> managedData \<Rightarrow> string \<Rightarrow> outcome" where
  "heavy_jobs w res data hsh =
     (if managedData.DevURL data = [] then
        (case managedData.URL data of
           None \<Rightarrow> finish res [] (Panicked NilPointer)
         | Some u \<Rightarrow>
             (case devURL (k8s w) res u of
                Inl err \<Rightarrow>
                  finish (SetNotReady (time_Now w) res ''GettingDevDB'' (err_Error err)) []
                    (ReturnResult err)
              | Inr d \<Rightarrow> with_client w res (data\<lparr>managedData.DevURL := d\<rparr>) hsh))
      else with_client w res data hsh)"

text \<open>\<open>Reconcile(ctx, req)\<close>.\<close>

definition Reconcile :: "world \<Rightarrow> outcome" where
  "Reconcile w =
     (case Get (k8s w) of
        Inl err \<Rightarrow>
          \<lparr>updated = None,
           returned = Return \<lparr>Requeue = False, RequeueAfter = 0\<rparr> (IgnoreNotFound err),
           calls = []\<rparr>
      | Inr res \<Rightarrow>
          if length (Conditions (AtlasSchema.Status res)) = 0 then
            finish (SetNotReady (time_Now w) res ''Reconciling'' ''Reconciling'') []
              (Return \<lparr>Requeue = True, RequeueAfter = 0\<rparr> None)
          else
            (case extractData w res of
               Inl err \<Rightarrow>
                 finish (SetNotReady (time_Now w) res ''ReadSchema'' (err_Error err)) []
                   (ReturnResult err)
             | Inr data \<Rightarrow>
                 (case hash (lib w) data of
                    Inl p \<Rightarrow> finish res [] (Panicked p)
                  | Inr (hsh, Some err) \<Rightarrow>
                      finish (SetNotReady (time_Now w) res ''CalculatingHash'' (err_Error err)) []
                        (ReturnResult err)
                  | Inr (hsh, None) \<Rightarrow>
                      if IsReady res \<and> IsHashModified res hsh then
                        finish (SetNotReady (time_Now w) res ''Reconciling''
                                  ''current schema does not match last applied'') []
                          (Return \<lparr>Requeue = True, RequeueAfter = 0\<rparr> None)
                      else heavy_jobs w res data hsh)))"

section \<open>Example values\<close>

text \<open>
  A resource, a world and engine answers on which the definitions are evaluated: a schema
  given as inline SQL, a database and a dev database, an engine that applies without
  error, and a library whose functions are simple stand-ins.
\<close>

definition ex_spec :: AtlasSchemaSpec where
  "ex_spec = \<lparr>Schema = \<lparr>SQL = ''create table t (id int);'', HCL = [], Schema.URL = [], ConfigMapKeyRef = None\<rparr>,
     Cloud = \<lparr>TokenFrom = \<lparr>SecretKeyRef = None\<rparr>, Repo = []\<rparr>,
     DevURL = ''sqlite://dev'', DevURLFrom = \<lparr>SecretKeyRef = None\<rparr>, Exclude = [],
     TxMode = ''file'', Policy = None, Schemas = []\<rparr>"

definition ex_synced :: Condition where
  "ex_synced = \<lparr>Condition.Type = ''Synced'', Condition.Status = ''True'', ObservedGeneration = 0,
     LastTransitionTime = 3, Reason = ''InSync'', Message = []\<rparr>"

definition ex_ready :: Condition where
  "ex_ready = \<lparr>Condition.Type = ''Ready'', Condition.Status = ''True'', ObservedGeneration = 0,
     LastTransitionTime = 5, Reason = ''Applied'', Message = ''The schema has been applied successfully.''\<rparr>"

definition ex_resource :: "Condition list \<Rightarrow> string \<Rightarrow> int \<Rightarrow> AtlasSchema" where
  "ex_resource cs h t = \<lparr>Namespace = ''default'', AtlasSchema.Name = ''sample'', Spec = ex_spec,
     AtlasSchema.Status = \<lparr>Conditions = cs, ObservedHash = h, LastApplied = t, PlanURL = [], PlanLink = []\<rparr>\<rparr>"

definition ex_status :: AtlasSchemaStatus where
  "ex_status = \<lparr>Conditions = [], ObservedHash = ''abc'', LastApplied = 9, PlanURL = [], PlanLink = []\<rparr>"

definition ex_lib :: stdlib where
  "ex_lib = \<lparr>url_Parse = (\<lambda>s. if s = ''atlas://repo'' then
                 Inr (url_zero\<lparr>Scheme := ''atlas'', Host := ''repo''\<rparr>)
               else Inl (Err Plain ''parse error'')),
     url_String = (\<lambda>u. Scheme u @ ''://'' @ Host u @ Path u),
     Quote = (\<lambda>s. CHR 0x22 # s @ [CHR 0x22]), ToLower = (\<lambda>s. s),
     path_Join = (\<lambda>a b. a @ b), json_Marshal = (\<lambda>r. Inr ''{}''), Sprintf_8s = take 8\<rparr>"

definition ex_k8s :: "error + AtlasSchema \<Rightarrow> cluster" where
  "ex_k8s g = \<lparr>Get = g,
     getConfigMap = (\<lambda>ns name. if name = ''schemas'' then Inr [''schema.sql'' \<mapsto> ''create table c (id int);'']
                      else Inl (Err NotFound ''configmap not found'')),
     getSecretValue = (\<lambda>ns sel. Inr ''secret''),
     DatabaseURL = (\<lambda>s ns. Inr (url_zero\<lparr>Scheme := ''mysql'', Host := ''db:3306'', Path := ''/app''\<rparr>)),
     devURL = (\<lambda>res u. Inr ''sqlite://dev'')\<rparr>"

definition ex_report :: SchemaApply where
  "ex_report = \<lparr>Changes = \<lparr>Applied = [''create table t (id int);''], Changes.Pending = []\<rparr>, Plan = None\<rparr>"

definition ex_engine :: "error + WhoAmI \<Rightarrow> error + SchemaPlanFile list \<Rightarrow> error option \<Rightarrow> engine" where
  "ex_engine who plans li = \<lparr>NewWorkingDir = (\<lambda>d. None), atlasClient = (\<lambda>c. None), WhoAmI = who,
     SchemaApply = (\<lambda>p. Inr ex_report), SchemaInspect = (\<lambda>p. Inr ''qUJ1c2hhc2g''),
     SchemaPush = (\<lambda>p. Inr \<lparr>SchemaPush.URL = ''atlas://repo?tag=x''\<rparr>),
     SchemaPlan = (\<lambda>p. Inl (Err Plain ''no changes to be made'')),
     SchemaPlanList = (\<lambda>p. plans), lint = (\<lambda>d v. li)\<rparr>"

definition ex_world :: "error + AtlasSchema \<Rightarrow> error + WhoAmI \<Rightarrow> error + SchemaPlanFile list \<Rightarrow> error option \<Rightarrow> world" where
  "ex_world g who plans li = \<lparr>lib = ex_lib, k8s = ex_k8s g, atlas = ex_engine who plans li,
     time_Now = 7, time_Now_Unix = 1700000000, isSQLErr = (\<lambda>e. False), defaultEnvName = ''kubernetes''\<rparr>"

definition ex_data :: "url option \<Rightarrow> string \<Rightarrow> managedData" where
  "ex_data d bytes = \<lparr>EnvName = ''kubernetes'',
     managedData.URL = Some (url_zero\<lparr>Scheme := ''mysql'', Host := ''db:3306'', Path := ''/app''\<rparr>),
     managedData.DevURL = ''sqlite://dev'', managedData.Schemas = [], managedData.Exclude = [],
     managedData.Policy = None, managedData.TxMode = ''file'', Desired = d,
     managedData.Cloud = None, schema = bytes\<rparr>"

definition ex_not_ready :: Condition where
  "ex_not_ready = \<lparr>Condition.Type = ''Ready'', Condition.Status = ''False'', ObservedGeneration = 0,
     LastTransitionTime = 5, Reason = ''Reconciling'', Message = ''Reconciling''\<rparr>"

definition ex_cloud_resource :: AtlasSchema where
  "ex_cloud_resource = (ex_resource [ex_not_ready] [] 0)
     \<lparr>Spec := ex_spec\<lparr>AtlasSchemaSpec.Cloud := \<lparr>TokenFrom = \<lparr>SecretKeyRef = None\<rparr>, CloudSpec.Repo = ''repo''\<rparr>\<rparr>\<rparr>"

definition ex_no_dev_resource :: AtlasSchema where
  "ex_no_dev_resource = (ex_resource [ex_not_ready] [] 0)
     \<lparr>Spec := ex_spec\<lparr>AtlasSchemaSpec.DevURL := []\<rparr>\<rparr>"

definition ex_plan :: "string \<Rightarrow> string \<Rightarrow> SchemaPlanFile" where
  "ex_plan n st = \<lparr>SchemaPlanFile.URL = ''atlas://repo/plans/'' @ n,
     Link = ''https://acme.atlasgo.cloud/plans/'' @ n, SchemaPlanFile.Status = st\<rparr>"

definition ex_list_params :: SchemaPlanListParams where
  "ex_list_params = \<lparr>SchemaPlanListParams.Env = ''kubernetes'',
     SchemaPlanListParams.Vars = [''lint_destructive'' \<mapsto> ''true'', ''lint_review'' \<mapsto> ''ERROR''],
     SchemaPlanListParams.Repo = ''atlas://repo'', SchemaPlanListParams.From = [''env://url''],
     SchemaPlanListParams.To = [''file://schema.sql'']\<rparr>"

definition ex_destructive :: error where
  "ex_destructive = Err (DestructiveErr (''FirstRunDestructive'', ''destructive changes detected: DROP TABLE t''))
     ''destructive changes detected''"

section \<open>Properties of truncateSQL\<close>

lemma sum_len_eq: "sum_len s t = t + (\<Sum>v\<leftarrow>s. int (length v))"
  by (induction s arbitrary: t) auto

lemma IndexRune_takeWhile:
  "IndexRune s c = (if c \<in> set s then int (length (takeWhile (\<lambda>x. x \<noteq> c) s)) else - 1)"
  by (induction s) (auto simp: Let_def)

lemma slice_to_IndexRune:
  assumes "IndexRune s c \<noteq> - 1"
  shows "slice_to s (IndexRune s c) = Inr (takeWhile (\<lambda>x. x \<noteq> c) s)"
proof -
  from assms have mem: "c \<in> set s"
    by (simp add: IndexRune_takeWhile split: if_splits)
  have "take (length (takeWhile (\<lambda>x. x \<noteq> c) s)) s = takeWhile (\<lambda>x. x \<noteq> c) s"
    by (induction s) auto
  moreover have "length (takeWhile (\<lambda>x. x \<noteq> c) s) \<le> length s"
    by (rule length_takeWhile_le)
  ultimately show ?thesis
    using mem by (simp add: slice_to_def IndexRune_takeWhile)
qed

lemma sum_len_pos_nonempty:
  "0 < (\<Sum>v\<leftarrow>s. int (length v)) \<Longrightarrow> \<exists>v\<in>set s. v \<noteq> []"
  by (induction s) (auto split: if_splits)

text \<open>
  C9. For every list of lines and every non-negative limit \<open>truncateSQL\<close> returns a list
  and does not panic: neither \<open>s[0]\<close> nor \<open>s[0][:idx]\<close> is out of range. An empty list is
  returned unchanged, and whenever the total exceeds the limit (the guard of the branch
  that reads \<open>s[0]\<close>) the list has a non-empty element.
\<close>

theorem truncateSQL_total:
  "0 \<le> sz \<Longrightarrow>
     (\<exists>r. truncateSQL s sz = Inr r) \<and> truncateSQL [] sz = Inr []
     \<and> (sz < sum_len s 0 \<longrightarrow> (\<exists>v\<in>set s. v \<noteq> []))"
proof (intro conjI impI)
  assume sz: "0 \<le> sz"
  show "\<exists>r. truncateSQL s sz = Inr r"
  proof (cases s)
    case Nil
    with sz show ?thesis by (simp add: truncateSQL_def)
  next
    case (Cons s0 rest)
    show ?thesis
    proof (cases "IndexRune s0 newline = - 1")
      case True
      with Cons show ?thesis by (simp add: truncateSQL_def Let_def)
    next
      case False
      with Cons show ?thesis
        by (simp add: truncateSQL_def Let_def slice_to_IndexRune)
    qed
  qed
  show "truncateSQL [] sz = Inr []"
    using sz by (simp add: truncateSQL_def)
  show "\<exists>v\<in>set s. v \<noteq> []" if "sz < sum_len s 0"
    using that sz by (intro sum_len_pos_nonempty) (simp add: sum_len_eq)
qed

theorem truncateSQL_total_witness:
  "(0::int) \<le> 3 \<and> truncateSQL [''ab'', ''cdef''] 3 = Inr [''ab'', ''-- truncated 4 bytes...'']
     \<and> truncateSQL [] 3 = Inr [] \<and> 3 < sum_len [''ab'', ''cdef''] 0
     \<and> ''ab'' \<in> set [''ab'', ''cdef''] \<and> ''ab'' \<noteq> []"
proof -
  have run: "truncateSQL [''ab'', ''cdef''] 3 = Inr [''ab'', ''-- truncated 4 bytes...'']"
    by code_simp
  have emp: "truncateSQL [] 3 = Inr []"
    by code_simp
  have big: "3 < sum_len [''ab'', ''cdef''] 0"
    by simp
  from truncateSQL_total [of 3 "[''ab'', ''cdef'']"] run emp big show ?thesis
    by simp
qed

text \<open>
  C7, as the code has it. When the total byte length is at most the limit the input is
  returned unchanged. Otherwise, for a list with first element \<open>s0\<close>: if \<open>s0\<close> fits the
  limit the result is \<open>s0\<close>, whole, followed by a summary of the remaining bytes; if \<open>s0\<close>
  exceeds the limit and its first line fits, the result is one entry, that first line, a
  line feed and the summary of the bytes after that line feed; if \<open>s0\<close> exceeds the limit
  and has no line feed, or its first line exceeds the limit too, the result is one summary
  entry that reports the total.
\<close>

theorem truncateSQL_cases:
  "((\<Sum>v\<leftarrow>s. int (length v)) \<le> sz \<longrightarrow> truncateSQL s sz = Inr s)
   \<and> (sz < (\<Sum>v\<leftarrow>s0 # rest. int (length v)) \<longrightarrow>
       (int (length s0) \<le> sz \<longrightarrow>
          truncateSQL (s0 # rest) sz =
            Inr [s0, truncated_msg ((\<Sum>v\<leftarrow>s0 # rest. int (length v)) - int (length s0))])
     \<and> (sz < int (length s0) \<and> newline \<in> set s0 \<and> int (length (first_line s0)) \<le> sz \<longrightarrow>
          truncateSQL (s0 # rest) sz =
            Inr [first_line s0 @ [newline] @
                 truncated_msg ((\<Sum>v\<leftarrow>s0 # rest. int (length v)) - (int (length (first_line s0)) + 1))])
     \<and> (sz < int (length s0) \<and> (newline \<notin> set s0 \<or> sz < int (length (first_line s0))) \<longrightarrow>
          truncateSQL (s0 # rest) sz = Inr [truncated_msg (\<Sum>v\<leftarrow>s0 # rest. int (length v))]))"
proof (intro conjI impI)
  show "truncateSQL s sz = Inr s" if "(\<Sum>v\<leftarrow>s. int (length v)) \<le> sz"
    using that by (simp add: truncateSQL_def sum_len_eq)
next
  assume big: "sz < (\<Sum>v\<leftarrow>s0 # rest. int (length v))"
  then have tot: "sz < sum_len (s0 # rest) 0"
    by (simp add: sum_len_eq)
  show "truncateSQL (s0 # rest) sz =
      Inr [s0, truncated_msg ((\<Sum>v\<leftarrow>s0 # rest. int (length v)) - int (length s0))]"
    if "int (length s0) \<le> sz"
    using that tot by (simp add: truncateSQL_def Let_def sum_len_eq)
  show "truncateSQL (s0 # rest) sz =
      Inr [first_line s0 @ [newline] @
           truncated_msg ((\<Sum>v\<leftarrow>s0 # rest. int (length v)) - (int (length (first_line s0)) + 1))]"
    if "sz < int (length s0) \<and> newline \<in> set s0 \<and> int (length (first_line s0)) \<le> sz"
  proof -
    from that have idx: "IndexRune s0 newline = int (length (first_line s0))"
      by (simp add: IndexRune_takeWhile first_line_def)
    then have "IndexRune s0 newline \<noteq> - 1" by simp
    then have "slice_to s0 (IndexRune s0 newline) = Inr (first_line s0)"
      by (simp add: slice_to_IndexRune first_line_def)
    with that tot idx show ?thesis
      by (simp add: truncateSQL_def Let_def sum_len_eq)
  qed
  show "truncateSQL (s0 # rest) sz = Inr [truncated_msg (\<Sum>v\<leftarrow>s0 # rest. int (length v))]"
    if "sz < int (length s0) \<and> (newline \<notin> set s0 \<or> sz < int (length (first_line s0)))"
    using that tot
    by (auto simp add: truncateSQL_def Let_def sum_len_eq IndexRune_takeWhile first_line_def)
qed

theorem truncateSQL_cases_witness:
  "truncateSQL [''ab'', ''c''] 5 = Inr [''ab'', ''c'']
   \<and> truncateSQL [''ab\<newline>cd'', ''efgh''] 6 = Inr [''ab\<newline>cd'', ''-- truncated 4 bytes...'']
   \<and> truncateSQL [''ab\<newline>cdefgh''] 5 = Inr [''ab\<newline>-- truncated 6 bytes...'']
   \<and> truncateSQL [''abcdef'', ''xx''] 3 = Inr [''-- truncated 8 bytes...'']"
proof -
  have ev: "truncated_msg 4 = ''-- truncated 4 bytes...''"
    "truncated_msg 6 = ''-- truncated 6 bytes...''"
    "truncated_msg 8 = ''-- truncated 8 bytes...''"
    by code_simp+
  have nl: "newline = CHR 0x0A"
    by (simp add: newline_def)
  show ?thesis
    using truncateSQL_cases [of "[''ab'', ''c'']" 5 "''ab\<newline>cd''" "[''efgh'']"]
      truncateSQL_cases [of "[]" 6 "''ab\<newline>cd''" "[''efgh'']"]
      truncateSQL_cases [of "[]" 5 "''ab\<newline>cdefgh''" "[]"]
      truncateSQL_cases [of "[]" 3 "''abcdef''" "[''xx'']"]
    by (simp add: ev nl first_line_def)
qed

text \<open>
  C7 as stated fails where the first element exceeds the limit and its first line fits:
  the claim gives a single summary line there, the code keeps the first line in front of
  the summary, in one entry.
\<close>

theorem truncateSQL_counterexample:
  "truncateSQL [''ab\<newline>cdefgh''] 5 = Inr [''ab\<newline>-- truncated 6 bytes...'']
   \<and> truncate_spec [''ab\<newline>cdefgh''] 5 = [''-- truncated 9 bytes...'']"
  by code_simp

section \<open>Properties of the condition writers\<close>

lemma Find_None: "(FindStatusCondition cs t = None) = (t \<notin> set (map Condition.Type cs))"
  by (induction cs) auto

lemma Find_Some:
  "FindStatusCondition cs t = Some i \<Longrightarrow> i < length cs \<and> Condition.Type (cs ! i) = t"
  by (induction cs arbitrary: i) (auto split: if_splits)

lemma Set_types:
  "map Condition.Type (SetStatusCondition now cs c) =
     map Condition.Type cs @ (if Condition.Type c \<in> set (map Condition.Type cs) then [] else [Condition.Type c])"
proof (cases "FindStatusCondition cs (Condition.Type c)")
  case None
  then show ?thesis
    using Find_None [of cs "Condition.Type c"] by (simp add: SetStatusCondition_def)
next
  case (Some i)
  from Find_Some [OF Some] have i: "i < length cs" "Condition.Type (cs ! i) = Condition.Type c"
    by simp_all
  then have mem: "Condition.Type c \<in> set (map Condition.Type cs)"
    by (metis length_map nth_map nth_mem)
  have "map Condition.Type (cs[i := x]) = map Condition.Type cs" if "Condition.Type x = Condition.Type (cs ! i)" for x
    using that i by (simp add: map_update list_update_same_conv)
  with Some mem show ?thesis
    by (simp add: SetStatusCondition_def Let_def)
qed

lemma Set_other:
  assumes "i < length cs" "Condition.Type (cs ! i) \<noteq> Condition.Type c"
  shows "SetStatusCondition now cs c ! i = cs ! i"
proof (cases "FindStatusCondition cs (Condition.Type c)")
  case None
  with assms show ?thesis by (simp add: SetStatusCondition_def nth_append)
next
  case (Some k)
  from Find_Some [OF Some] assms have "k \<noteq> i" by auto
  with Some show ?thesis by (simp add: SetStatusCondition_def Let_def)
qed

lemma cond_of_simps:
  "cond_of [] t = None"
  "cond_of (c # cs) t = (if Condition.Type c = t then Some c else cond_of cs t)"
  by (auto simp: cond_of_def option.map_comp comp_def)

lemma Set_Cons:
  "SetStatusCondition now (a # cs) c =
     (if Condition.Type a = Condition.Type c then SetStatusCondition now [a] c @ cs
      else a # SetStatusCondition now cs c)"
  by (cases "FindStatusCondition cs (Condition.Type c)") (simp_all add: SetStatusCondition_def Let_def)

lemma Set_lookup:
  "\<exists>r. cond_of (SetStatusCondition now cs c) (Condition.Type c) = Some r
     \<and> Condition.Status r = Condition.Status c \<and> Reason r = Reason c \<and> Message r = Message c"
proof (induction cs)
  case Nil
  then show ?case by (simp add: SetStatusCondition_def cond_of_simps)
next
  case (Cons a cs)
  show ?case
  proof (cases "Condition.Type a = Condition.Type c")
    case True
    then show ?thesis by (simp add: SetStatusCondition_def Let_def cond_of_simps)
  next
    case False
    with Cons show ?thesis by (simp add: Set_Cons cond_of_simps)
  qed
qed


text \<open>
  C8, as the code has it. \<open>SetNotReady\<close> deletes nothing: the types of the conditions stay
  in place, with Ready appended when it was absent, every condition of another type is
  unchanged at its index, and the Ready condition carries status False with the given
  reason and message. \<open>SetReady\<close> does the same on the conditions of the status it is
  given, with status True and reason Applied, and its result does not depend on the status
  the resource had before: that status, its conditions included, is replaced.
\<close>

theorem SetNotReady_keeps_conditions:
  "map Condition.Type (Conditions (AtlasSchema.Status (SetNotReady now sc reason msg))) =
     map Condition.Type (Conditions (AtlasSchema.Status sc)) @
       (if readyCond \<in> set (map Condition.Type (Conditions (AtlasSchema.Status sc))) then [] else [readyCond])
   \<and> (\<forall>i < length (Conditions (AtlasSchema.Status sc)).
         Condition.Type (Conditions (AtlasSchema.Status sc) ! i) \<noteq> readyCond \<longrightarrow>
         Conditions (AtlasSchema.Status (SetNotReady now sc reason msg)) ! i = Conditions (AtlasSchema.Status sc) ! i)
   \<and> (\<exists>r. ReadyCondition (SetNotReady now sc reason msg) = Some r
         \<and> Condition.Status r = ConditionFalse \<and> Reason r = reason \<and> Message r = msg)
   \<and> map Condition.Type (Conditions (AtlasSchema.Status (SetReady marshal now sc status report))) =
     map Condition.Type (Conditions status) @
       (if readyCond \<in> set (map Condition.Type (Conditions status)) then [] else [readyCond])
   \<and> (\<forall>i < length (Conditions status).
         Condition.Type (Conditions status ! i) \<noteq> readyCond \<longrightarrow>
         Conditions (AtlasSchema.Status (SetReady marshal now sc status report)) ! i = Conditions status ! i)
   \<and> (\<exists>r. ReadyCondition (SetReady marshal now sc status report) = Some r
         \<and> Condition.Status r = ConditionTrue \<and> Reason r = ''Applied'')
   \<and> AtlasSchema.Status (SetReady marshal now sc status report) =
       AtlasSchema.Status (SetReady marshal now (sc\<lparr>AtlasSchema.Status := st0\<rparr>) status report)"
proof (intro conjI allI impI)
  let ?nr = "\<lparr>Condition.Type = readyCond, Condition.Status = ConditionFalse,
             ObservedGeneration = 0, LastTransitionTime = 0, Reason = reason, Message = msg\<rparr>"
  show "map Condition.Type (Conditions (AtlasSchema.Status (SetNotReady now sc reason msg))) =
     map Condition.Type (Conditions (AtlasSchema.Status sc)) @
       (if readyCond \<in> set (map Condition.Type (Conditions (AtlasSchema.Status sc))) then [] else [readyCond])"
    using Set_types [of now "Conditions (AtlasSchema.Status sc)" ?nr]
    by (simp add: SetNotReady_def)
  show "Conditions (AtlasSchema.Status (SetNotReady now sc reason msg)) ! i = Conditions (AtlasSchema.Status sc) ! i"
    if "i < length (Conditions (AtlasSchema.Status sc))"
      "Condition.Type (Conditions (AtlasSchema.Status sc) ! i) \<noteq> readyCond" for i
    using Set_other [of i "Conditions (AtlasSchema.Status sc)" ?nr now] that
    by (simp add: SetNotReady_def)
  show "\<exists>r. ReadyCondition (SetNotReady now sc reason msg) = Some r
         \<and> Condition.Status r = ConditionFalse \<and> Reason r = reason \<and> Message r = msg"
    using Set_lookup [of now "Conditions (AtlasSchema.Status sc)" ?nr]
    by (simp add: SetNotReady_def ReadyCondition_def)
next
  define m where "m = (case report of
               Some rep \<Rightarrow>
                 (case marshal rep of
                    Inl err \<Rightarrow> ''Error marshalling apply response: '' @ err_Error err
                  | Inr j \<Rightarrow> ''The schema has been applied successfully. Apply response: '' @ j)
             | None \<Rightarrow> ''The schema has been applied successfully.'')"
  let ?rd = "\<lparr>Condition.Type = readyCond, Condition.Status = ConditionTrue,
             ObservedGeneration = 0, LastTransitionTime = 0, Reason = ''Applied'', Message = m\<rparr>"
  have st: "AtlasSchema.Status (SetReady marshal now sc' status report) =
      status\<lparr>Conditions := SetStatusCondition now (Conditions status) ?rd\<rparr>" for sc'
    by (simp add: SetReady_def Let_def m_def)
  show "map Condition.Type (Conditions (AtlasSchema.Status (SetReady marshal now sc status report))) =
     map Condition.Type (Conditions status) @
       (if readyCond \<in> set (map Condition.Type (Conditions status)) then [] else [readyCond])"
    using Set_types [of now "Conditions status" ?rd] by (simp add: st)
  show "Conditions (AtlasSchema.Status (SetReady marshal now sc status report)) ! i = Conditions status ! i"
    if "i < length (Conditions status)" "Condition.Type (Conditions status ! i) \<noteq> readyCond" for i
    using Set_other [of i "Conditions status" ?rd now] that by (simp add: st)
  show "\<exists>r. ReadyCondition (SetReady marshal now sc status report) = Some r
         \<and> Condition.Status r = ConditionTrue \<and> Reason r = ''Applied''"
    using Set_lookup [of now "Conditions status" ?rd] by (auto simp add: st ReadyCondition_def)
  show "AtlasSchema.Status (SetReady marshal now sc status report) =
       AtlasSchema.Status (SetReady marshal now (sc\<lparr>AtlasSchema.Status := st0\<rparr>) status report)"
    by (simp only: st)
qed

theorem SetNotReady_keeps_conditions_witness:
  "Conditions (AtlasSchema.Status (SetNotReady 7 (ex_resource [ex_synced, ex_ready] ''abc'' 4) ''Reconciling'' ''m'')) ! 0 = ex_synced
   \<and> map Condition.Type (Conditions (AtlasSchema.Status (SetNotReady 7 (ex_resource [ex_synced, ex_ready] ''abc'' 4) ''Reconciling'' ''m'')))
       = [''Synced'', ''Ready'']
   \<and> map Condition.Type (Conditions (AtlasSchema.Status (SetReady (\<lambda>r. Inr ''{}'') 7 (ex_resource [ex_synced, ex_ready] ''abc'' 4)
         (ex_status\<lparr>Conditions := [ex_synced]\<rparr>) None))) = [''Synced'', ''Ready'']
   \<and> Conditions (AtlasSchema.Status (SetReady (\<lambda>r. Inr ''{}'') 7 (ex_resource [ex_synced, ex_ready] ''abc'' 4)
         (ex_status\<lparr>Conditions := [ex_synced]\<rparr>) None)) ! 0 = ex_synced"
  using SetNotReady_keeps_conditions [of 7 "ex_resource [ex_synced, ex_ready] ''abc'' 4" "''Reconciling''" "''m''"
      "\<lambda>r. Inr ''{}''" "ex_status\<lparr>Conditions := [ex_synced]\<rparr>" None ex_status]
  by (simp add: SetNotReady_def SetReady_def SetStatusCondition_def ex_resource_def ex_status_def
      ex_synced_def ex_ready_def readyCond_def)


text \<open>
  C8 as stated fails for \<open>SetReady\<close>: a condition of another type that the resource holds
  is gone after the write when the status passed in does not carry it (the controller
  always passes a status without conditions).
\<close>

theorem SetReady_counterexample:
  "ex_synced \<in> set (Conditions (AtlasSchema.Status (ex_resource [ex_synced, ex_ready] ''abc'' 4)))
   \<and> Conditions (AtlasSchema.Status
        (SetReady (\<lambda>r. Inr ''{}'') 7 (ex_resource [ex_synced, ex_ready] ''abc'' 4) ex_status None)) =
      [\<lparr>Condition.Type = ''Ready'', Condition.Status = ''True'', ObservedGeneration = 0,
        LastTransitionTime = 7, Reason = ''Applied'', Message = ''The schema has been applied successfully.''\<rparr>]"
  by (simp add: SetReady_def SetStatusCondition_def ex_resource_def ex_status_def readyCond_def
      ConditionTrue_def IsZero_def)

section \<open>Properties of DesiredState\<close>

text \<open>
  C10. \<open>DesiredState\<close> resolves the fields of a \<open>Schema\<close> in a fixed order. With
  \<open>ConfigMapKeyRef\<close> set, the inline fields and the URL play no role, and a key ending in
  \<open>.hcl\<close> or \<open>.sql\<close> gives the content of the ConfigMap. Without it, a non-empty \<open>HCL\<close>
  is used whatever \<open>SQL\<close> and \<open>URL\<close> are; then a non-empty \<open>SQL\<close> whatever \<open>URL\<close> is;
  then the URL; and with none of the four set the error is "no desired state specified".
\<close>

theorem DesiredState_priority:
  "(ConfigMapKeyRef s \<noteq> None \<longrightarrow>
      DesiredState w s ns = DesiredState w (s\<lparr>HCL := h, SQL := q, Schema.URL := u\<rparr>) ns)
   \<and> (ConfigMapKeyRef s = Some ref \<and>
        getConfigMap (k8s w) ns (ConfigMapKeySelector.Name ref) = Inr val \<and>
        val (ConfigMapKeySelector.Key ref) = Some desired \<and>
        ToLower (lib w) (Ext (ConfigMapKeySelector.Key ref)) = ext \<and> (ext = ''.hcl'' \<or> ext = ''.sql'') \<longrightarrow>
      DesiredState w s ns =
        Inr (url_zero\<lparr>Scheme := ''file'', Path := ''schema'' @ ext\<rparr>, desired))
   \<and> (ConfigMapKeyRef s = None \<and> HCL s \<noteq> [] \<longrightarrow>
      DesiredState w s ns =
        Inr (url_zero\<lparr>Scheme := ''file'', Path := ''schema.hcl''\<rparr>, HCL s))
   \<and> (ConfigMapKeyRef s = None \<and> HCL s = [] \<and> SQL s \<noteq> [] \<longrightarrow>
      DesiredState w s ns =
        Inr (url_zero\<lparr>Scheme := ''file'', Path := ''schema.sql''\<rparr>, SQL s))
   \<and> (ConfigMapKeyRef s = None \<and> HCL s = [] \<and> SQL s = [] \<and> Schema.URL s \<noteq> [] \<and>
        url_Parse (lib w) (Schema.URL s) = Inr pu \<and> Scheme pu = ''atlas'' \<longrightarrow>
      DesiredState w s ns = Inr (pu, []))
   \<and> (ConfigMapKeyRef s = None \<and> HCL s = [] \<and> SQL s = [] \<and> Schema.URL s = [] \<longrightarrow>
      DesiredState w s ns = Inl (Err Plain ''no desired state specified''))"
  by (auto simp add: DesiredState_def SchemaTypeFile_def SchemaTypeAtlas_def errors_New_def Let_def)

theorem DesiredState_priority_witness:
  "DesiredState (ex_world (Inl (Err NotFound [])) (Inl (Err RequireLogin [])) (Inr []) None)
     \<lparr>SQL = ''create table t (id int);'', HCL = ''schema x {}'', Schema.URL = ''atlas://repo'',
      ConfigMapKeyRef = None\<rparr> ''default''
   = Inr (url_zero\<lparr>Scheme := ''file'', Path := ''schema.hcl''\<rparr>, ''schema x {}'')
   \<and> DesiredState (ex_world (Inl (Err NotFound [])) (Inl (Err RequireLogin [])) (Inr []) None)
     \<lparr>SQL = ''create table t (id int);'', HCL = [], Schema.URL = ''atlas://repo'',
      ConfigMapKeyRef = None\<rparr> ''default''
   = Inr (url_zero\<lparr>Scheme := ''file'', Path := ''schema.sql''\<rparr>, ''create table t (id int);'')
   \<and> DesiredState (ex_world (Inl (Err NotFound [])) (Inl (Err RequireLogin [])) (Inr []) None)
     \<lparr>SQL = [], HCL = [], Schema.URL = ''atlas://repo'', ConfigMapKeyRef = None\<rparr> ''default''
   = Inr (url_zero\<lparr>Scheme := ''atlas'', Host := ''repo''\<rparr>, [])
   \<and> DesiredState (ex_world (Inl (Err NotFound [])) (Inl (Err RequireLogin [])) (Inr []) None)
     \<lparr>SQL = [], HCL = [], Schema.URL = [], ConfigMapKeyRef = None\<rparr> ''default''
   = Inl (Err Plain ''no desired state specified'')
   \<and> DesiredState (ex_world (Inl (Err NotFound [])) (Inl (Err RequireLogin [])) (Inr []) None)
     \<lparr>SQL = ''create table t (id int);'', HCL = ''schema x {}'', Schema.URL = ''atlas://repo'',
      ConfigMapKeyRef = Some \<lparr>ConfigMapKeySelector.Name = ''schemas'', ConfigMapKeySelector.Key = ''schema.sql''\<rparr>\<rparr> ''default''
   = Inr (url_zero\<lparr>Scheme := ''file'', Path := ''schema.sql''\<rparr>, ''create table c (id int);'')"
proof -
  let ?w = "ex_world (Inl (Err NotFound [])) (Inl (Err RequireLogin [])) (Inr []) None"
  let ?ref = "\<lparr>ConfigMapKeySelector.Name = ''schemas'', ConfigMapKeySelector.Key = ''schema.sql''\<rparr>"
  note hcl = DesiredState_priority
      [where w = ?w and ns = "''default''"
         and s = "\<lparr>SQL = ''create table t (id int);'', HCL = ''schema x {}'',
                   Schema.URL = ''atlas://repo'', ConfigMapKeyRef = None\<rparr>"]
  note sql = DesiredState_priority
      [where w = ?w and ns = "''default''"
         and s = "\<lparr>SQL = ''create table t (id int);'', HCL = [],
                   Schema.URL = ''atlas://repo'', ConfigMapKeyRef = None\<rparr>"]
  note url = DesiredState_priority
      [where w = ?w and ns = "''default''"
         and s = "\<lparr>SQL = [], HCL = [], Schema.URL = ''atlas://repo'', ConfigMapKeyRef = None\<rparr>"
         and pu = "(url_zero\<lparr>Scheme := ''atlas'', Host := ''repo''\<rparr>)"]
  note none = DesiredState_priority
      [where w = ?w and ns = "''default''"
         and s = "\<lparr>SQL = [], HCL = [], Schema.URL = [], ConfigMapKeyRef = None\<rparr>"]
  note cm = DesiredState_priority
      [where w = ?w and ns = "''default''"
         and s = "\<lparr>SQL = ''create table t (id int);'', HCL = ''schema x {}'',
                   Schema.URL = ''atlas://repo'', ConfigMapKeyRef = Some ?ref\<rparr>"
         and ref = ?ref and val = "[''schema.sql'' \<mapsto> ''create table c (id int);'']"
         and desired = "''create table c (id int);''" and ext = "''.sql''"]
  have e: "Ext ''schema.sql'' = ''.sql''"
    by (simp add: Ext_def)
  from hcl sql url none cm show ?thesis
    by (simp add: ex_world_def ex_lib_def ex_k8s_def e)
qed

section \<open>Properties of the hash\<close>

lemma hash_no_error: "hash L d = Inr (h, e) \<Longrightarrow> e = None"
  by (auto simp: hash_def split: if_splits option.splits)

lemma hash_desired_bytes:
  "desired_bytes L d = Some b \<Longrightarrow> hash L d = Inr (EncodeToString (Sum256 b), None)"
  by (auto simp: hash_def desired_bytes_def split: if_splits)

text \<open>
  C6, as the code has it. \<open>hash\<close> returns the hexadecimal SHA-256 digest of the schema
  bytes when they are non-empty and otherwise of the string form of the locator, and
  never an error. Desired states with the same bytes have the same hash, so two hashes
  differ only when the bytes differ.
\<close>

theorem hash_content_addressed:
  "(schema d \<noteq> [] \<longrightarrow> hash L d = Inr (EncodeToString (Sum256 (schema d)), None))
   \<and> (schema d = [] \<and> Desired d = Some u \<longrightarrow>
        hash L d = Inr (EncodeToString (Sum256 (url_String L u)), None))
   \<and> (desired_bytes L x = Some b \<and> desired_bytes L y = Some b \<longrightarrow> hash L x = hash L y)
   \<and> (desired_bytes L x \<noteq> None \<and> desired_bytes L y \<noteq> None \<and> hash L x \<noteq> hash L y \<longrightarrow>
        desired_bytes L x \<noteq> desired_bytes L y)"
  by (auto simp: hash_desired_bytes) (auto simp: hash_def)

theorem hash_content_addressed_witness:
  "hash ex_lib (ex_data (Some (url_zero\<lparr>Scheme := ''file'', Path := ''schema.sql''\<rparr>)) ''create table t (id int);'')
     = Inr (EncodeToString (Sum256 ''create table t (id int);''), None)
   \<and> hash ex_lib (ex_data (Some (url_zero\<lparr>Scheme := ''atlas'', Host := ''repo''\<rparr>)) [])
     = Inr (EncodeToString (Sum256 ''atlas://repo''), None)
   \<and> hash ex_lib (ex_data (Some (url_zero\<lparr>Scheme := ''file'', Path := ''schema.sql''\<rparr>)) ''create table t (id int);'')
     = hash ex_lib (ex_data (Some (url_zero\<lparr>Scheme := ''file'', Path := ''schema.hcl''\<rparr>)) ''create table t (id int);'')"
proof -
  let ?sql = "ex_data (Some (url_zero\<lparr>Scheme := ''file'', Path := ''schema.sql''\<rparr>)) ''create table t (id int);''"
  let ?hcl = "ex_data (Some (url_zero\<lparr>Scheme := ''file'', Path := ''schema.hcl''\<rparr>)) ''create table t (id int);''"
  let ?atlas = "ex_data (Some (url_zero\<lparr>Scheme := ''atlas'', Host := ''repo''\<rparr>)) []"
  note content = hash_content_addressed
    [where L = ex_lib and d = ?sql and x = ?sql and y = ?hcl and b = "''create table t (id int);''"]
  note locator = hash_content_addressed
    [where L = ex_lib and d = ?atlas and u = "url_zero\<lparr>Scheme := ''atlas'', Host := ''repo''\<rparr>"
       and x = ?atlas and y = ?atlas and b = "''atlas://repo''"]
  have s: "url_String ex_lib (url_zero\<lparr>Scheme := ''atlas'', Host := ''repo''\<rparr>) = ''atlas://repo''"
    by (simp add: ex_lib_def url_zero_def)
  have ne: "schema ?sql \<noteq> []" and em: "schema ?atlas = []"
    and de: "Desired ?atlas = Some (url_zero\<lparr>Scheme := ''atlas'', Host := ''repo''\<rparr>)"
    and db: "desired_bytes ex_lib ?sql = Some ''create table t (id int);''"
      "desired_bytes ex_lib ?hcl = Some ''create table t (id int);''"
    and sc: "schema ?sql = ''create table t (id int);''"
    by (simp_all add: ex_data_def desired_bytes_def)
  from content ne sc have c1:
    "hash ex_lib ?sql = Inr (EncodeToString (Sum256 ''create table t (id int);''), None)"
    by metis
  from content db have c3: "hash ex_lib ?sql = hash ex_lib ?hcl"
    by blast
  from locator em de have c2:
    "hash ex_lib ?atlas = Inr (EncodeToString (Sum256 ''atlas://repo''), None)"
    by (metis s)
  from c1 c2 c3 show ?thesis
    by blast
qed

text \<open>
  The digest has 256 bits, so SHA-256 cannot tell all byte strings apart: some two
  distinct non-empty strings have the same digest. The model computes the digest of the
  test vector \<open>abc\<close>.
\<close>

lemma length_round256: "length st = 8 \<Longrightarrow> length (round256 st kw) = 8"
  by (cases kw) (auto simp: numeral_eq_Suc length_Suc_conv Let_def)

lemma length_foldl_round256: "length st = 8 \<Longrightarrow> length (foldl round256 st kws) = 8"
  by (induction kws arbitrary: st) (simp_all add: length_round256)

lemma length_block256: "length hs = 8 \<Longrightarrow> length (block256 hs blk) = 8"
  by (simp add: block256_def length_foldl_round256)

lemma length_blocks256: "length hs = 8 \<Longrightarrow> length (blocks256 hs bs) = 8"
proof (induction hs bs rule: blocks256.induct)
  case (1 hs bs)
  then show ?case
    by (subst blocks256.simps) (simp add: length_block256)
qed

lemma length_Sum256: "length (Sum256 m) = 32"
proof -
  have "length (blocks256 init256 bs) = 8" for bs
    by (rule length_blocks256) (simp add: init256_def)
  moreover have "length (concat (map bytes32 ws)) = 4 * length ws" for ws
    by (induction ws) (simp_all add: bytes32_def)
  ultimately show ?thesis by (simp add: Sum256_def)
qed

lemma Sum256_collision: "\<exists>x y. x \<noteq> [] \<and> y \<noteq> [] \<and> x \<noteq> y \<and> Sum256 x = Sum256 y"
proof (rule ccontr)
  assume "\<not> (\<exists>x y. x \<noteq> [] \<and> y \<noteq> [] \<and> x \<noteq> y \<and> Sum256 x = Sum256 y)"
  then have "inj_on Sum256 {s. s \<noteq> []}"
    by (auto simp: inj_on_def)
  moreover have "Sum256 ` {s. s \<noteq> []} \<subseteq> {bs. length bs = 32}"
    by (auto simp: length_Sum256)
  moreover have "finite {bs :: 8 word list. length bs = 32}"
    using finite_lists_length_eq [of "UNIV :: 8 word set" 32] by simp
  ultimately have "finite {s :: string. s \<noteq> []}"
    by (meson finite_imageD finite_subset)
  moreover have "(UNIV :: string set) = insert [] {s. s \<noteq> []}"
    by auto
  ultimately have "finite (UNIV :: string set)"
    by (metis finite_insert)
  then show False by (simp add: infinite_UNIV_listI)
qed

lemma Sum256_abc:
  "EncodeToString (Sum256 ''abc'') = ''ba7816bf8f01cfea414140de5dae2223b00361a396177a9cb410ff61f20015ad''"
  by code_simp

text \<open>
  C6 as stated fails in the other direction, whatever the library prints for a locator:
  it is not the case that desired states with different bytes always have different
  hashes. Two inline schemas whose contents collide under SHA-256 have the same hash.
\<close>

theorem hash_counterexample:
  "\<forall>L. \<not> (\<forall>x y. desired_bytes L x \<noteq> desired_bytes L y \<longrightarrow> hash L x \<noteq> hash L y)"
proof
  fix L
  from Sum256_collision obtain a b where
    ab: "a \<noteq> []" "b \<noteq> []" "a \<noteq> b" "Sum256 a = Sum256 b"
    by blast
  have "desired_bytes L (ex_data None a) \<noteq> desired_bytes L (ex_data None b)"
    using ab by (simp add: desired_bytes_def ex_data_def)
  moreover have "hash L (ex_data None a) = hash L (ex_data None b)"
    using ab by (simp add: hash_def ex_data_def)
  ultimately show "\<not> (\<forall>x y. desired_bytes L x \<noteq> desired_bytes L y \<longrightarrow> hash L x \<noteq> hash L y)"
    by blast
qed

section \<open>Properties of Reconcile\<close>

lemma finish_simps [simp]:
  "calls (finish res cs r) = cs" "updated (finish res cs r) = Some res" "returned (finish res cs r) = r"
  by (simp_all add: finish_def)

lemma failed_simps [simp]:
  "calls (failed w res cs reason err) = cs"
  "updated (failed w res cs reason err) = Some (SetNotReady (time_Now w) res reason (err_Error err))"
  "returned (failed w res cs reason err) = ReturnResult (if \<not> isSQLErr w err then transient err else err)"
  by (simp_all add: failed_def)

lemma calls_applied [simp]: "calls (applied w res h cs r) = cs"
  by (simp add: applied_def Let_def split: sum.splits option.splits)

lemma calls_createPlan:
  "\<exists>xs. calls (createPlan w res data desired repo vars h d cs) = cs @ xs \<and> (\<forall>c\<in>set xs. is_plan_step c)"
  by (auto simp add: createPlan_def Let_def split: sum.splits option.splits)

lemma NotReadyWith_SetNotReady [simp]: "NotReadyWith (SetNotReady t res reason msg) reason msg"
  using Set_lookup [of t "Conditions (AtlasSchema.Status res)"
      "\<lparr>Condition.Type = readyCond, Condition.Status = ConditionFalse,
        ObservedGeneration = 0, LastTransitionTime = 0, Reason = reason, Message = msg\<rparr>"]
  by (auto simp: NotReadyWith_def ReadyCondition_def SetNotReady_def)

lemma extractData_Some:
  "extractData w res = Inr data \<Longrightarrow> Desired data \<noteq> None \<and> managedData.URL data \<noteq> None"
  by (auto simp: extractData_def Let_def split: sum.splits option.splits if_splits prod.splits)

lemma list_in_createPlan [simp]:
  "SchemaPlanListCall lp r \<in> set (calls (createPlan w res data desired repo vars h d cs))
     \<longleftrightarrow> SchemaPlanListCall lp r \<in> set cs"
proof -
  obtain xs where xs: "calls (createPlan w res data desired repo vars h d cs) = cs @ xs"
      "\<forall>c\<in>set xs. is_plan_step c"
    using calls_createPlan by blast
  from xs(2) have "SchemaPlanListCall lp r \<notin> set xs"
    by (metis is_plan_step.simps(7))
  with xs(1) show ?thesis by simp
qed



lemma list_in_first_run [simp]:
  "SchemaPlanListCall lp r \<in> set (calls (first_run w res data h d cs)) \<longleftrightarrow> SchemaPlanListCall lp r \<in> set cs"
  by (auto simp add: first_run_def Let_def split: option.splits prod.splits)

lemma list_in_lint_policy [simp]:
  "SchemaPlanListCall lp r \<in> set (calls (lint_policy w res data h d cs)) \<longleftrightarrow> SchemaPlanListCall lp r \<in> set cs"
  by (auto simp add: lint_policy_def Let_def split: option.splits)

lemma list_in_no_policy [simp]:
  "SchemaPlanListCall lp r \<in> set (calls (no_policy w res data h d cs)) \<longleftrightarrow> SchemaPlanListCall lp r \<in> set cs"
  by (auto simp add: no_policy_def Let_def)







lemma first_run_trace:
  "calls (first_run w res data h d cs) =
     cs @ [LintCall [''lint_destructive'' \<mapsto> ''true''] (lint (atlas w) data [''lint_destructive'' \<mapsto> ''true''])] @
       (case lint (atlas w) data [''lint_destructive'' \<mapsto> ''true''] of
          Some e \<Rightarrow> []
        | None \<Rightarrow>
            [SchemaApplyCall
               \<lparr>SchemaApplyParams.Env = EnvName data, SchemaApplyParams.Vars = Map.empty,
                SchemaApplyParams.To = d, SchemaApplyParams.TxMode = managedData.TxMode data,
                AutoApprove = True, SchemaApplyParams.PlanURL = []\<rparr>
               (SchemaApply (atlas w)
                 \<lparr>SchemaApplyParams.Env = EnvName data, SchemaApplyParams.Vars = Map.empty,
                  SchemaApplyParams.To = d, SchemaApplyParams.TxMode = managedData.TxMode data,
                  AutoApprove = True, SchemaApplyParams.PlanURL = []\<rparr>)])"
  by (simp add: first_run_def Let_def split: option.splits prod.splits)

lemma first_run_destructive:
  assumes "lint (atlas w) data [''lint_destructive'' \<mapsto> ''true''] = Some e"
    and "As_destructiveErr e = Some (reason, msg)"
  shows "first_run w res data h d cs =
     finish (SetNotReady (time_Now w) res reason msg)
       (cs @ [LintCall [''lint_destructive'' \<mapsto> ''true''] (Some e)])
       (Return \<lparr>Requeue = False, RequeueAfter = 0\<rparr> None)"
  using assms by (simp add: first_run_def Let_def)

lemma present_cond_of:
  "IsStatusConditionPresentAndEqual cs t st =
     (case cond_of cs t of None \<Rightarrow> False | Some c \<Rightarrow> Condition.Status c = st)"
  by (induction cs) (simp_all add: cond_of_simps)

lemma NotReadyWith_not_ready: "NotReadyWith sc reason msg \<Longrightarrow> \<not> IsReady sc"
  by (auto simp: NotReadyWith_def IsReady_def IsStatusConditionTrue_def present_cond_of
      ReadyCondition_def ConditionTrue_def ConditionFalse_def split: option.splits)

text \<open>
  C5. Take a pass on a resource with \<open>status.LastApplied = 0\<close> that gets as far as asking
  the engine who it is (the resource has conditions, the data is extracted, the
  idempotency gate lets the pass through, a dev database is there or is provisioned, the
  working directory and the client are created) and is not connected to the cloud:
  \<open>WhoAmI\<close> returns \<open>ErrRequireLogin\<close>. Then the next call of the pass is the lint, with
  \<open>lint_destructive = "true"\<close>, before any apply: it is followed by one auto-approved
  \<open>SchemaApply\<close> when the lint found nothing and by no call at all when it returned an
  error. If that error is a destructive-change error, the pass sets the not-ready
  condition with the reason and message of the first run, returns no error and an empty
  result, which requests no requeue, and has called no \<open>SchemaApply\<close>.
\<close>

theorem Reconcile_first_run:
  assumes "Get (k8s w) = Inr res"
    and "Conditions (AtlasSchema.Status res) \<noteq> []"
    and "LastApplied (AtlasSchema.Status res) = 0"
    and "extractData w res = Inr data"
    and "hash (lib w) data = Inr (h, e)"
    and "\<not> (IsReady res \<and> IsHashModified res h)"
    and "managedData.URL data = Some u"
    and "managedData.DevURL data = [] \<longrightarrow> devURL (k8s w) res u = Inr d"
    and "data' = (if managedData.DevURL data = [] then data\<lparr>managedData.DevURL := d\<rparr> else data)"
    and "NewWorkingDir (atlas w) data' = None"
    and "atlasClient (atlas w) (managedData.Cloud data') = None"
    and "WhoAmI (atlas w) = Inl err"
    and "Is_ErrRequireLogin err"
    and "vars = [''lint_destructive'' \<mapsto> ''true'']"
  shows "(\<exists>rest. calls (Reconcile w) =
              WhoAmICall (Inl err) # LintCall vars (lint (atlas w) data' vars) # rest
            \<and> (lint (atlas w) data' vars = None \<longrightarrow>
                 (\<exists>p. rest = [SchemaApplyCall p (SchemaApply (atlas w) p)] \<and> AutoApprove p))
            \<and> (lint (atlas w) data' vars \<noteq> None \<longrightarrow> rest = []))
       \<and> (\<forall>e' reason msg.
            lint (atlas w) data' vars = Some e' \<and> As_destructiveErr e' = Some (reason, msg) \<longrightarrow>
              calls (Reconcile w) = [WhoAmICall (Inl err), LintCall vars (Some e')]
              \<and> filter is_apply (calls (Reconcile w)) = []
              \<and> returned (Reconcile w) = Return \<lparr>Requeue = False, RequeueAfter = 0\<rparr> None
              \<and> scheduled (returned (Reconcile w)) = Some (\<lparr>Requeue = False, RequeueAfter = 0\<rparr>, None)
              \<and> \<not> requeues (\<lparr>Requeue = False, RequeueAfter = 0\<rparr>, None)
              \<and> updated (Reconcile w) = Some (SetNotReady (time_Now w) res reason msg)
              \<and> NotReadyWith (SetNotReady (time_Now w) res reason msg) reason msg)"
proof -
  from assms(5) have e: "e = None" by (rule hash_no_error)
  from extractData_Some [OF assms(4)] obtain desired where des: "Desired data = Some desired"
    by auto
  then have des': "Desired data' = Some desired"
    by (simp add: assms(9))
  have heavy: "Reconcile w = heavy_jobs w res data h"
    using assms(1,2,4,5,6) e by (auto simp add: Reconcile_def)
  have client: "heavy_jobs w res data h = with_client w res data' h"
    using assms(7,8,9) by (simp add: heavy_jobs_def)
  have switch: "with_client w res data' h = apply_switch w res data' h None [WhoAmICall (Inl err)]"
    using assms(10,11,12,13) by (simp add: with_client_def)
  have "apply_switch w res data' h None [WhoAmICall (Inl err)] =
      first_run w res data' h (url_String (lib w) desired) [WhoAmICall (Inl err)]"
    using des' assms(3) by (simp add: apply_switch_def)
  with heavy client switch
  have fr: "Reconcile w = first_run w res data' h (url_String (lib w) desired) [WhoAmICall (Inl err)]"
    by simp
  have tr: "calls (Reconcile w) =
      [WhoAmICall (Inl err)] @ [LintCall vars (lint (atlas w) data' vars)] @
       (case lint (atlas w) data' vars of
          Some e \<Rightarrow> []
        | None \<Rightarrow>
            [SchemaApplyCall
               \<lparr>SchemaApplyParams.Env = EnvName data', SchemaApplyParams.Vars = Map.empty,
                SchemaApplyParams.To = url_String (lib w) desired,
                SchemaApplyParams.TxMode = managedData.TxMode data',
                AutoApprove = True, SchemaApplyParams.PlanURL = []\<rparr>
               (SchemaApply (atlas w)
                 \<lparr>SchemaApplyParams.Env = EnvName data', SchemaApplyParams.Vars = Map.empty,
                  SchemaApplyParams.To = url_String (lib w) desired,
                  SchemaApplyParams.TxMode = managedData.TxMode data',
                  AutoApprove = True, SchemaApplyParams.PlanURL = []\<rparr>)])"
    unfolding fr assms(14) by (rule first_run_trace)
  show ?thesis
  proof (intro conjI allI impI)
    show "\<exists>rest. calls (Reconcile w) =
              WhoAmICall (Inl err) # LintCall vars (lint (atlas w) data' vars) # rest
            \<and> (lint (atlas w) data' vars = None \<longrightarrow>
                 (\<exists>p. rest = [SchemaApplyCall p (SchemaApply (atlas w) p)] \<and> AutoApprove p))
            \<and> (lint (atlas w) data' vars \<noteq> None \<longrightarrow> rest = [])"
      by (cases "lint (atlas w) data' vars") (simp_all add: tr)
  next
    fix e' reason msg
    assume a: "lint (atlas w) data' vars = Some e' \<and> As_destructiveErr e' = Some (reason, msg)"
    then have fin: "Reconcile w =
        finish (SetNotReady (time_Now w) res reason msg)
          ([WhoAmICall (Inl err)] @ [LintCall vars (Some e')])
          (Return \<lparr>Requeue = False, RequeueAfter = 0\<rparr> None)"
      unfolding fr assms(14) by (intro first_run_destructive) simp_all
    show "calls (Reconcile w) = [WhoAmICall (Inl err), LintCall vars (Some e')]"
      by (simp add: fin)
    show "filter is_apply (calls (Reconcile w)) = []"
      by (simp add: fin)
    show "returned (Reconcile w) = Return \<lparr>Requeue = False, RequeueAfter = 0\<rparr> None"
      by (simp add: fin)
    show "scheduled (returned (Reconcile w)) = Some (\<lparr>Requeue = False, RequeueAfter = 0\<rparr>, None)"
      by (simp add: fin)
    show "\<not> requeues (\<lparr>Requeue = False, RequeueAfter = 0\<rparr>, None)"
      by (simp add: requeues_def)
    show "updated (Reconcile w) = Some (SetNotReady (time_Now w) res reason msg)"
      by (simp add: fin)
    show "NotReadyWith (SetNotReady (time_Now w) res reason msg) reason msg"
      by (rule NotReadyWith_SetNotReady)
  qed
qed

text \<open>
  C1. In a pass on a resource whose Ready condition is true, when the hash of the data
  just extracted differs from \<open>status.ObservedHash\<close>, \<open>Reconcile\<close> calls no operation of
  the engine, sets the Ready condition to false with reason "Reconciling", and returns a
  result that asks for an immediate requeue, with no error.
\<close>

theorem Reconcile_idempotency_gate:
  assumes "Get (k8s w) = Inr res" and "IsReady res" and "extractData w res = Inr data"
    and "hash (lib w) data = Inr (h, e)" and "IsHashModified res h"
  shows "calls (Reconcile w) = []
     \<and> returned (Reconcile w) = Return \<lparr>Requeue = True, RequeueAfter = 0\<rparr> None
     \<and> requeues (\<lparr>Requeue = True, RequeueAfter = 0\<rparr>, None)
     \<and> (\<exists>res'. updated (Reconcile w) = Some res'
          \<and> NotReadyWith res' ''Reconciling'' ''current schema does not match last applied''
          \<and> \<not> IsReady res')"
proof -
  from assms(2) have conds: "Conditions (AtlasSchema.Status res) \<noteq> []"
    by (auto simp: IsReady_def IsStatusConditionTrue_def)
  from assms(4) have e: "e = None" by (rule hash_no_error)
  have eq: "Reconcile w =
      finish (SetNotReady (time_Now w) res ''Reconciling'' ''current schema does not match last applied'') []
        (Return \<lparr>Requeue = True, RequeueAfter = 0\<rparr> None)"
    using assms conds e by (simp add: Reconcile_def)
  have "\<not> IsReady (SetNotReady (time_Now w) res ''Reconciling'' ''current schema does not match last applied'')"
    by (rule NotReadyWith_not_ready) (rule NotReadyWith_SetNotReady)
  then show ?thesis
    by (simp add: eq requeues_def)
qed









lemmas pass_defs = Reconcile_def heavy_jobs_def with_client_def apply_switch_def cloud_def
  cloud_vars_def first_run_def lint_policy_def no_policy_def applied_def createPlan_def failed_def
  finish_def extractData_def DesiredState_def hash_def repoURL_def url_zero_def shouldLint_def
  IsReady_def IsHashModified_def IsStatusConditionTrue_def SetNotReady_def SetReady_def
  SetStatusCondition_def readyCond_def ConditionTrue_def ConditionFalse_def IsZero_def
  SchemaTypeFile_def SchemaTypeAtlas_def LintReviewError_def LintReviewAlways_def errors_New_def
  Is_ErrRequireLogin_def As_destructiveErr_def transient_def

lemmas ex_defs = ex_world_def ex_lib_def ex_k8s_def ex_engine_def ex_resource_def ex_spec_def
  ex_not_ready_def ex_cloud_resource_def ex_no_dev_resource_def ex_plan_def ex_list_params_def ex_report_def ex_ready_def
  ex_data_def




theorem Reconcile_first_run_witness:
  "calls (Reconcile (ex_world (Inr ex_no_dev_resource) (Inl (Err RequireLogin ''login required''))
       (Inr []) (Some ex_destructive))) =
     [WhoAmICall (Inl (Err RequireLogin ''login required'')),
      LintCall [''lint_destructive'' \<mapsto> ''true''] (Some ex_destructive)]
   \<and> returned (Reconcile (ex_world (Inr ex_no_dev_resource) (Inl (Err RequireLogin ''login required''))
       (Inr []) (Some ex_destructive))) = Return \<lparr>Requeue = False, RequeueAfter = 0\<rparr> None
   \<and> map_option (\<lambda>r. map Reason (Conditions (AtlasSchema.Status r)))
       (updated (Reconcile (ex_world (Inr ex_no_dev_resource) (Inl (Err RequireLogin ''login required''))
       (Inr []) (Some ex_destructive)))) = Some [''FirstRunDestructive'']
   \<and> calls (Reconcile (ex_world (Inr (ex_resource [ex_not_ready] [] 0))
       (Inl (Err RequireLogin ''login required'')) (Inr []) None)) =
     [WhoAmICall (Inl (Err RequireLogin ''login required'')),
      LintCall [''lint_destructive'' \<mapsto> ''true''] None,
      SchemaApplyCall
        \<lparr>SchemaApplyParams.Env = ''kubernetes'', SchemaApplyParams.Vars = Map.empty,
         SchemaApplyParams.To = ''file://schema.sql'', SchemaApplyParams.TxMode = ''file'',
         AutoApprove = True, SchemaApplyParams.PlanURL = []\<rparr>
        (Inr ex_report)]"
proof -
  let ?err = "Err RequireLogin ''login required''"
  let ?vars = "[''lint_destructive'' \<mapsto> ''true'']"
  let ?db = "url_zero\<lparr>Scheme := ''mysql'', Host := ''db:3306'', Path := ''/app''\<rparr>"
  let ?sql = "ex_data (Some (url_zero\<lparr>Scheme := ''file'', Path := ''schema.sql''\<rparr>)) ''create table t (id int);''"
  let ?h = "EncodeToString (Sum256 ''create table t (id int);'')"
  let ?wa = "ex_world (Inr ex_no_dev_resource) (Inl ?err) (Inr []) (Some ex_destructive)"
  let ?wb = "ex_world (Inr (ex_resource [ex_not_ready] [] 0)) (Inl ?err) (Inr []) None"
  have lg: "Is_ErrRequireLogin ?err"
    by (simp add: Is_ErrRequireLogin_def)
  have hs: "hash ex_lib ?sql = Inr (?h, None)" "hash ex_lib (?sql\<lparr>managedData.DevURL := []\<rparr>) = Inr (?h, None)"
    by (simp_all add: hash_def ex_data_def)
  have a: "(\<exists>rest. calls (Reconcile ?wa) =
              WhoAmICall (Inl ?err) # LintCall ?vars (lint (atlas ?wa) ?sql ?vars) # rest
            \<and> (lint (atlas ?wa) ?sql ?vars = None \<longrightarrow>
                 (\<exists>p. rest = [SchemaApplyCall p (SchemaApply (atlas ?wa) p)] \<and> AutoApprove p))
            \<and> (lint (atlas ?wa) ?sql ?vars \<noteq> None \<longrightarrow> rest = []))
       \<and> (\<forall>e' reason msg.
            lint (atlas ?wa) ?sql ?vars = Some e' \<and> As_destructiveErr e' = Some (reason, msg) \<longrightarrow>
              calls (Reconcile ?wa) = [WhoAmICall (Inl ?err), LintCall ?vars (Some e')]
              \<and> filter is_apply (calls (Reconcile ?wa)) = []
              \<and> returned (Reconcile ?wa) = Return \<lparr>Requeue = False, RequeueAfter = 0\<rparr> None
              \<and> scheduled (returned (Reconcile ?wa)) = Some (\<lparr>Requeue = False, RequeueAfter = 0\<rparr>, None)
              \<and> \<not> requeues (\<lparr>Requeue = False, RequeueAfter = 0\<rparr>, None)
              \<and> updated (Reconcile ?wa) = Some (SetNotReady (time_Now ?wa) ex_no_dev_resource reason msg)
              \<and> NotReadyWith (SetNotReady (time_Now ?wa) ex_no_dev_resource reason msg) reason msg)"
  proof (rule Reconcile_first_run [where h = ?h and e = None and u = ?db and d = "''sqlite://dev''"
        and data = "?sql\<lparr>managedData.DevURL := []\<rparr>"])
    show "Get (k8s ?wa) = Inr ex_no_dev_resource"
      by (simp add: ex_world_def ex_k8s_def)
    show "Conditions (AtlasSchema.Status ex_no_dev_resource) \<noteq> []"
      by (simp add: ex_no_dev_resource_def ex_resource_def)
    show "LastApplied (AtlasSchema.Status ex_no_dev_resource) = 0"
      by (simp add: ex_no_dev_resource_def ex_resource_def)
    show "extractData ?wa ex_no_dev_resource = Inr (?sql\<lparr>managedData.DevURL := []\<rparr>)"
      by (simp add: extractData_def DesiredState_def ex_defs SchemaTypeFile_def Let_def)
    show "hash (lib ?wa) (?sql\<lparr>managedData.DevURL := []\<rparr>) = Inr (?h, None)"
      using hs by (simp add: ex_world_def)
    show "\<not> (IsReady ex_no_dev_resource \<and> IsHashModified ex_no_dev_resource ?h)"
      by (simp add: IsReady_def IsStatusConditionTrue_def ex_no_dev_resource_def ex_resource_def
          ex_not_ready_def readyCond_def ConditionTrue_def)
    show "managedData.URL (?sql\<lparr>managedData.DevURL := []\<rparr>) = Some ?db"
      by (simp add: ex_data_def)
    show "managedData.DevURL (?sql\<lparr>managedData.DevURL := []\<rparr>) = [] \<longrightarrow>
        devURL (k8s ?wa) ex_no_dev_resource ?db = Inr ''sqlite://dev''"
      by (simp add: ex_world_def ex_k8s_def)
    show "?sql = (if managedData.DevURL (?sql\<lparr>managedData.DevURL := []\<rparr>) = []
        then ?sql\<lparr>managedData.DevURL := []\<rparr>\<lparr>managedData.DevURL := ''sqlite://dev''\<rparr>
        else ?sql\<lparr>managedData.DevURL := []\<rparr>)"
      by (simp add: ex_data_def)
    show "NewWorkingDir (atlas ?wa) ?sql = None"
      by (simp add: ex_world_def ex_engine_def)
    show "atlasClient (atlas ?wa) (managedData.Cloud ?sql) = None"
      by (simp add: ex_world_def ex_engine_def)
    show "WhoAmI (atlas ?wa) = Inl ?err"
      by (simp add: ex_world_def ex_engine_def)
    show "Is_ErrRequireLogin ?err"
      by (rule lg)
    show "?vars = [''lint_destructive'' \<mapsto> ''true'']"
      by simp
  qed
  have b: "(\<exists>rest. calls (Reconcile ?wb) =
              WhoAmICall (Inl ?err) # LintCall ?vars (lint (atlas ?wb) ?sql ?vars) # rest
            \<and> (lint (atlas ?wb) ?sql ?vars = None \<longrightarrow>
                 (\<exists>p. rest = [SchemaApplyCall p (SchemaApply (atlas ?wb) p)] \<and> AutoApprove p))
            \<and> (lint (atlas ?wb) ?sql ?vars \<noteq> None \<longrightarrow> rest = []))
       \<and> (\<forall>e' reason msg.
            lint (atlas ?wb) ?sql ?vars = Some e' \<and> As_destructiveErr e' = Some (reason, msg) \<longrightarrow>
              calls (Reconcile ?wb) = [WhoAmICall (Inl ?err), LintCall ?vars (Some e')]
              \<and> filter is_apply (calls (Reconcile ?wb)) = []
              \<and> returned (Reconcile ?wb) = Return \<lparr>Requeue = False, RequeueAfter = 0\<rparr> None
              \<and> scheduled (returned (Reconcile ?wb)) = Some (\<lparr>Requeue = False, RequeueAfter = 0\<rparr>, None)
              \<and> \<not> requeues (\<lparr>Requeue = False, RequeueAfter = 0\<rparr>, None)
              \<and> updated (Reconcile ?wb) = Some (SetNotReady (time_Now ?wb) (ex_resource [ex_not_ready] [] 0) reason msg)
              \<and> NotReadyWith (SetNotReady (time_Now ?wb) (ex_resource [ex_not_ready] [] 0) reason msg) reason msg)"
  proof (rule Reconcile_first_run [where h = ?h and e = None and u = ?db and d = "[]" and data = ?sql])
    show "Get (k8s ?wb) = Inr (ex_resource [ex_not_ready] [] 0)"
      by (simp add: ex_world_def ex_k8s_def)
    show "Conditions (AtlasSchema.Status (ex_resource [ex_not_ready] [] 0)) \<noteq> []"
      by (simp add: ex_resource_def)
    show "LastApplied (AtlasSchema.Status (ex_resource [ex_not_ready] [] 0)) = 0"
      by (simp add: ex_resource_def)
    show "extractData ?wb (ex_resource [ex_not_ready] [] 0) = Inr ?sql"
      by (simp add: extractData_def DesiredState_def ex_defs SchemaTypeFile_def Let_def)
    show "hash (lib ?wb) ?sql = Inr (?h, None)"
      using hs by (simp add: ex_world_def)
    show "\<not> (IsReady (ex_resource [ex_not_ready] [] 0) \<and> IsHashModified (ex_resource [ex_not_ready] [] 0) ?h)"
      by (simp add: IsReady_def IsStatusConditionTrue_def ex_resource_def
          ex_not_ready_def readyCond_def ConditionTrue_def)
    show "managedData.URL ?sql = Some ?db"
      by (simp add: ex_data_def)
    show "managedData.DevURL ?sql = [] \<longrightarrow> devURL (k8s ?wb) (ex_resource [ex_not_ready] [] 0) ?db = Inr []"
      by (simp add: ex_data_def)
    show "?sql = (if managedData.DevURL ?sql = [] then ?sql\<lparr>managedData.DevURL := []\<rparr> else ?sql)"
      by (simp add: ex_data_def)
    show "NewWorkingDir (atlas ?wb) ?sql = None"
      by (simp add: ex_world_def ex_engine_def)
    show "atlasClient (atlas ?wb) (managedData.Cloud ?sql) = None"
      by (simp add: ex_world_def ex_engine_def)
    show "WhoAmI (atlas ?wb) = Inl ?err"
      by (simp add: ex_world_def ex_engine_def)
    show "Is_ErrRequireLogin ?err"
      by (rule lg)
    show "?vars = [''lint_destructive'' \<mapsto> ''true'']"
      by simp
  qed
  have la: "lint (atlas ?wa) ?sql ?vars = Some ex_destructive"
    by (simp add: ex_world_def ex_engine_def)
  have d: "As_destructiveErr ex_destructive =
      Some (''FirstRunDestructive'', ''destructive changes detected: DROP TABLE t'')"
    by (simp add: As_destructiveErr_def ex_destructive_def)
  from a la d have a1: "calls (Reconcile ?wa) = [WhoAmICall (Inl ?err), LintCall ?vars (Some ex_destructive)]"
    and a2: "returned (Reconcile ?wa) = Return \<lparr>Requeue = False, RequeueAfter = 0\<rparr> None"
    and a3: "updated (Reconcile ?wa) = Some (SetNotReady (time_Now ?wa) ex_no_dev_resource
        ''FirstRunDestructive'' ''destructive changes detected: DROP TABLE t'')"
    by blast+
  have a4: "map Reason (Conditions (AtlasSchema.Status (SetNotReady (time_Now ?wa) ex_no_dev_resource
        ''FirstRunDestructive'' ''destructive changes detected: DROP TABLE t''))) = [''FirstRunDestructive'']"
    by (simp add: SetNotReady_def SetStatusCondition_def ex_no_dev_resource_def ex_resource_def
        ex_not_ready_def readyCond_def ConditionFalse_def IsZero_def Let_def)
  have lb: "lint (atlas ?wb) ?sql ?vars = None"
    by (simp add: ex_world_def ex_engine_def)
  from b lb obtain p where
    b1: "calls (Reconcile ?wb) = [WhoAmICall (Inl ?err), LintCall ?vars None,
        SchemaApplyCall p (SchemaApply (atlas ?wb) p)]"
    by auto
  have b2: "calls (Reconcile ?wb) = [WhoAmICall (Inl ?err), LintCall ?vars None,
      SchemaApplyCall
        \<lparr>SchemaApplyParams.Env = ''kubernetes'', SchemaApplyParams.Vars = Map.empty,
         SchemaApplyParams.To = ''file://schema.sql'', SchemaApplyParams.TxMode = ''file'',
         AutoApprove = True, SchemaApplyParams.PlanURL = []\<rparr>
        (Inr ex_report)]"
    by (simp add: pass_defs ex_defs Let_def truncateSQL_def sqlLimitSize_def split: sum.splits)
  from a1 a2 a3 a4 b2 show ?thesis
    by simp
qed

lemma length_EncodeToString: "length (EncodeToString bs) = 2 * length bs"
  by (induction bs) (simp_all add: EncodeToString_def)

theorem Reconcile_idempotency_gate_witness:
  "IsReady (ex_resource [ex_ready] ''stale'' 4)
   \<and> IsHashModified (ex_resource [ex_ready] ''stale'' 4) (EncodeToString (Sum256 ''create table t (id int);''))
   \<and> calls (Reconcile (ex_world (Inr (ex_resource [ex_ready] ''stale'' 4))
        (Inl (Err RequireLogin ''login required'')) (Inr []) None)) = []
   \<and> returned (Reconcile (ex_world (Inr (ex_resource [ex_ready] ''stale'' 4))
        (Inl (Err RequireLogin ''login required'')) (Inr []) None)) =
      Return \<lparr>Requeue = True, RequeueAfter = 0\<rparr> None"
proof -
  let ?res = "ex_resource [ex_ready] ''stale'' 4"
  let ?w = "ex_world (Inr ?res) (Inl (Err RequireLogin ''login required'')) (Inr []) None"
  let ?data = "ex_data (Some (url_zero\<lparr>Scheme := ''file'', Path := ''schema.sql''\<rparr>))
      ''create table t (id int);''"
  have g: "Get (k8s ?w) = Inr ?res"
    by (simp add: ex_world_def ex_k8s_def)
  have r: "IsReady ?res"
    by (simp add: IsReady_def IsStatusConditionTrue_def ex_resource_def ex_ready_def readyCond_def
        ConditionTrue_def)
  have x: "extractData ?w ?res = Inr ?data"
    by (simp add: extractData_def DesiredState_def ex_defs SchemaTypeFile_def Let_def)
  have h: "hash (lib ?w) ?data = Inr (EncodeToString (Sum256 ''create table t (id int);''), None)"
    by (simp add: hash_def ex_data_def)
  have "length (EncodeToString (Sum256 ''create table t (id int);'')) = 64"
    by (simp add: length_EncodeToString length_Sum256)
  then have "EncodeToString (Sum256 ''create table t (id int);'') \<noteq> ''stale''"
    by auto
  then have m: "IsHashModified ?res (EncodeToString (Sum256 ''create table t (id int);''))"
    by (simp add: IsHashModified_def ex_resource_def)
  from Reconcile_idempotency_gate [OF g r x h m] r m show ?thesis
    by simp
qed

end
